theory Spec2Isabelle
  imports Complex_Main
begin

section \<open>Data model\<close>

text \<open>
  The application keeps all of its state in a hosted relational database; the route
  handlers, the services and the stored procedures read and write its tables. A table
  is a list of rows, a row is a record of the columns the verified code reads or writes.

  \<^item> Identifiers (\<open>UUID\<close> columns) are natural numbers; an identifier the database
    generates for an inserted row is drawn from the counter \<open>next_uuid\<close>.
  \<^item> Amounts are rationals. The SQL columns are exact decimals; the TypeScript code
    computes with IEEE doubles, which this model idealises to exact arithmetic.
  \<^item> Nullable text columns are \<open>string option\<close>.
  \<^item> Free-text \<open>description\<close> columns and the bookkeeping timestamps
    (\<open>updated_at\<close>, \<open>processed_at\<close>, a transaction's \<open>created_at\<close>) are left
    out: no verified code path branches on them.
  \<^item> A timestamp is the number of milliseconds since the epoch (what \<open>Date.getTime()\<close>
    returns), a calendar date the number of whole UTC days since the epoch. ISO date
    strings \<open>YYYY-MM-DD\<close> of four-digit years are ordered as these day numbers are.
\<close>

type_synonym uuid = nat

record profile =
  p_id :: uuid
  referral_code :: "string option"
  sponsor_id :: "string option"
  main_wallet_balance :: rat
  fund_wallet_balance :: rat
  total_jarvis_tokens :: rat
  is_admin :: bool

record investment_plan =
  ip_id :: uuid
  ip_user_id :: uuid
  ip_plan_type :: string
  ip_investment_amount :: rat
  ip_daily_percentage :: rat
  ip_total_profit_earned :: rat
  ip_is_active :: bool
  ip_created_at :: int

record profit_distribution =
  pd_plan_id :: uuid
  pd_user_id :: uuid
  pd_profit_amount :: rat
  pd_distribution_date :: int

datatype transaction_status = pending | completed | failed | cancelled

record transaction =
  tx_id :: uuid
  tx_user_id :: uuid
  tx_transaction_type :: string
  tx_amount :: rat
  tx_fee :: "rat option"
  tx_net_amount :: "rat option"
  tx_status :: transaction_status
  tx_reference_id :: "string option"
  tx_plan_id :: "uuid option"

record referral_commission =
  rc_referrer_id :: uuid
  rc_referred_id :: uuid
  rc_commission_amount :: rat
  rc_commission_percentage :: rat
  rc_level :: nat

datatype request_status = req_pending | req_approved | req_rejected

record withdrawal_request =
  wr_id :: uuid
  wr_user_id :: uuid
  wr_amount :: rat
  wr_status :: request_status
  wr_admin_notes :: "string option"

record deposit_request =
  dr_id :: uuid
  dr_user_id :: uuid
  dr_amount :: rat
  dr_tx_hash :: "string option"
  dr_status :: request_status
  dr_processed_by :: "uuid option"
  dr_admin_notes :: "string option"

record db =
  profiles :: "profile list"
  investment_plans :: "investment_plan list"
  profit_distributions :: "profit_distribution list"
  transactions :: "transaction list"
  referral_commissions :: "referral_commission list"
  withdrawal_requests :: "withdrawal_request list"
  deposit_requests :: "deposit_request list"
  next_uuid :: uuid

subsection \<open>The database client\<close>

text \<open>
  Every call of the database client returns \<open>{ data, error }\<close>. A call can fail for
  reasons outside the program (network, permissions, constraints); which calls fail
  during one run is a parameter \<open>fl\<close> of every modelled function, so that each
  \<open>if (error)\<close> branch of the source is a branch of the model.
\<close>

datatype table =
  Profiles | Investment_plans | Profit_distributions | Transactions | Referral_commissions

datatype db_call = Select table | Insert table | Update table | Delete table | Rpc string

type_synonym faults = "db_call \<Rightarrow> bool"

definition no_faults :: faults where
  "no_faults = (\<lambda>c. False)"

text \<open>
  \<open>.single()\<close>: the query must return exactly one row; with no row or several rows the
  client reports an error and \<open>data\<close> is \<open>null\<close>.
\<close>

definition single_row :: "'a list \<Rightarrow> 'a option" where
  "single_row rows = (case rows of [r] \<Rightarrow> Some r | _ \<Rightarrow> None)"

text \<open>JavaScript truthiness of a nullable string: \<open>null\<close> and \<open>''\<close> are falsy.\<close>

definition truthy :: "string option \<Rightarrow> bool" where
  "truthy s = (case s of None \<Rightarrow> False | Some t \<Rightarrow> t \<noteq> [])"

definition profile_by_id :: "faults \<Rightarrow> db \<Rightarrow> uuid \<Rightarrow> profile option" where
  "profile_by_id fl d userId =
     (if fl (Select Profiles) then None
      else single_row (filter (\<lambda>p. p_id p = userId) (profiles d)))"

section \<open>Referral counting\<close>

text \<open>
  \<open>OptimizedReferralService.countAllReferralsRecursive(referralCode, depth, maxDepth)\<close>:
  the profiles whose \<open>sponsor_id\<close> is the code, plus, for each of them that has a
  referral code, the count below it, down to \<open>maxDepth\<close> levels.
\<close>

function countAllReferralsRecursive :: "faults \<Rightarrow> db \<Rightarrow> string \<Rightarrow> nat \<Rightarrow> nat \<Rightarrow> nat" where
  "countAllReferralsRecursive fl d referralCode depth maxDepth =
     (if depth \<ge> maxDepth then 0
      else
        let directReferrals = filter (\<lambda>p. sponsor_id p = Some referralCode) (profiles d)
        in if fl (Select Profiles) \<or> directReferrals = [] then 0
           else length directReferrals +
                sum_list (map (\<lambda>referral.
                    case referral_code referral of
                      None \<Rightarrow> 0
                    | Some code \<Rightarrow>
                        if code = [] then 0
                        else countAllReferralsRecursive fl d code (depth + 1) maxDepth)
                  directReferrals))"
  by pat_completeness auto
termination
  by (relation "measure (\<lambda>(fl, d, referralCode, depth, maxDepth). maxDepth - depth)") auto

declare countAllReferralsRecursive.simps [simp del]

text \<open>
  \<open>OptimizedReferralService.getDirectReferralsCount(userId)\<close>: the number of profiles
  whose \<open>sponsor_id\<close> is the user's referral code.
\<close>

definition getDirectReferralsCount :: "faults \<Rightarrow> db \<Rightarrow> uuid \<Rightarrow> nat" where
  "getDirectReferralsCount fl d userId =
     (case profile_by_id fl d userId of
        None \<Rightarrow> 0
      | Some userProfile \<Rightarrow>
          if \<not> truthy (referral_code userProfile) then 0
          else if fl (Select Profiles) then 0
          else length (filter (\<lambda>p. sponsor_id p = referral_code userProfile) (profiles d)))"

section \<open>ReferralService: multi-level commissions\<close>

record ReferralCommissionRates =
  level :: nat
  usdtRate :: rat

record ReferralTransaction =
  rt_userId :: uuid
  rt_amount :: rat
  rt_transactionType :: string
  rt_planType :: "string option"

definition commissionRates :: "ReferralCommissionRates list" where
  "commissionRates =
     [\<lparr>level = 1, usdtRate = 10\<rparr>,
      \<lparr>level = 2, usdtRate = 5\<rparr>,
      \<lparr>level = 3, usdtRate = 3\<rparr>,
      \<lparr>level = 4, usdtRate = 2\<rparr>,
      \<lparr>level = 5, usdtRate = 1\<rparr>,
      \<lparr>level = 6, usdtRate = 1 / 2\<rparr>]"

datatype error =
    Failed_to_get_referrer_data
  | Failed_to_update_referrer_balance
  | Failed_to_create_commission_transaction
  | Failed_to_create_referral_commission_record
  | Failed_to_get_referral_stats
  | Database_error db_call

text \<open>
  \<open>ReferralService.getReferralChain(userId)\<close>: from the user, look up the profile whose
  \<open>referral_code\<close> is the current profile's \<open>sponsor_id\<close>; the loop runs for the levels
  1 to 6 and breaks at the first lookup that fails. The chain holds the referrer rows
  with their level.
\<close>

function getReferralChain_from :: "faults \<Rightarrow> db \<Rightarrow> uuid \<Rightarrow> nat \<Rightarrow> (profile \<times> nat) list" where
  "getReferralChain_from fl d currentUserId lvl =
     (if lvl > 6 then []
      else case profile_by_id fl d currentUserId of
        None \<Rightarrow> []
      | Some referralData \<Rightarrow>
          if \<not> truthy (sponsor_id referralData) then []
          else
            (case (if fl (Select Profiles) then None
                   else single_row (filter (\<lambda>p. referral_code p = sponsor_id referralData)
                                      (profiles d))) of
               None \<Rightarrow> []
             | Some referrer \<Rightarrow>
                 (referrer, lvl) # getReferralChain_from fl d (p_id referrer) (lvl + 1)))"
  by pat_completeness auto
termination
  by (relation "measure (\<lambda>(fl, d, currentUserId, lvl). 7 - lvl)") auto

declare getReferralChain_from.simps [simp del]

definition getReferralChain :: "faults \<Rightarrow> db \<Rightarrow> uuid \<Rightarrow> (profile \<times> nat) list" where
  "getReferralChain fl d userId = getReferralChain_from fl d userId 1"

text \<open>An insert into \<open>transactions\<close>: the database generates the row's id.\<close>

definition insert_transaction :: "transaction \<Rightarrow> db \<Rightarrow> db" where
  "insert_transaction row d =
     d\<lparr>transactions := transactions d @ [row\<lparr>tx_id := next_uuid d\<rparr>],
       next_uuid := next_uuid d + 1\<rparr>"

definition set_main_wallet_balance :: "uuid \<Rightarrow> rat \<Rightarrow> db \<Rightarrow> db" where
  "set_main_wallet_balance userId v d =
     d\<lparr>profiles := map (\<lambda>p. if p_id p = userId then p\<lparr>main_wallet_balance := v\<rparr> else p)
                        (profiles d)\<rparr>"

text \<open>\<open>ReferralService.createCommissionTransaction\<close>; it throws when the insert fails.\<close>

definition createCommissionTransaction ::
  "faults \<Rightarrow> uuid \<Rightarrow> uuid \<Rightarrow> rat \<Rightarrow> nat \<Rightarrow> db \<Rightarrow> error option \<times> db" where
  "createCommissionTransaction fl referrerId referredUserId amount lvl d =
     (if fl (Insert Transactions) then (Some Failed_to_create_commission_transaction, d)
      else (None, insert_transaction
              \<lparr>tx_id = 0, tx_user_id = referrerId, tx_transaction_type = ''referral_bonus'',
               tx_amount = amount, tx_fee = None, tx_net_amount = Some amount,
               tx_status = completed, tx_reference_id = None, tx_plan_id = None\<rparr> d))"

text \<open>
  \<open>ReferralService.createReferralCommissionRecord\<close>; \<open>commission_percentage\<close> is
  \<open>commissionRates[level - 1]?.usdtRate || 0\<close>.
\<close>

definition createReferralCommissionRecord ::
  "faults \<Rightarrow> uuid \<Rightarrow> uuid \<Rightarrow> rat \<Rightarrow> nat \<Rightarrow> db \<Rightarrow> error option \<times> db" where
  "createReferralCommissionRecord fl referrerId referredUserId usdtAmount lvl d =
     (if fl (Insert Referral_commissions)
      then (Some Failed_to_create_referral_commission_record, d)
      else (None, d\<lparr>referral_commissions := referral_commissions d @
              [\<lparr>rc_referrer_id = referrerId, rc_referred_id = referredUserId,
                rc_commission_amount = usdtAmount,
                rc_commission_percentage =
                  (if 1 \<le> lvl \<and> lvl \<le> length commissionRates
                   then usdtRate (commissionRates ! (lvl - 1)) else 0),
                rc_level = lvl\<rparr>]\<rparr>))"

text \<open>
  \<open>ReferralService.payCommission\<close>: read the referrer's balance, write it back increased
  by \<open>(transactionAmount * rate) / 100\<close>, then insert the transaction and the commission
  record. The writes are separate calls: what was written before a failure stays.
\<close>

definition payCommission ::
  "faults \<Rightarrow> uuid \<Rightarrow> uuid \<Rightarrow> rat \<Rightarrow> ReferralCommissionRates \<Rightarrow> db \<Rightarrow> error option \<times> db" where
  "payCommission fl referrerId referredUserId transactionAmount rates d =
     (let usdtCommission = (transactionAmount * usdtRate rates) / 100
      in case profile_by_id fl d referrerId of
        None \<Rightarrow> (Some Failed_to_get_referrer_data, d)
      | Some referrer \<Rightarrow>
          let newUsdtBalance = main_wallet_balance referrer + usdtCommission
          in if fl (Update Profiles) then (Some Failed_to_update_referrer_balance, d)
             else
               let d1 = set_main_wallet_balance referrerId newUsdtBalance d
               in (case createCommissionTransaction fl referrerId referredUserId
                          usdtCommission (level rates) d1 of
                     (Some e, d2) \<Rightarrow> (Some e, d2)
                   | (None, d2) \<Rightarrow>
                       createReferralCommissionRecord fl referrerId referredUserId
                         usdtCommission (level rates) d2))"

text \<open>
  The loop of \<open>processReferralCommissions\<close>: position \<open>i\<close> of the chain is paid at
  \<open>commissionRates[i]\<close>, while both lists last; the first error ends the loop.
\<close>

fun payCommissions ::
  "faults \<Rightarrow> ReferralTransaction \<Rightarrow> ((profile \<times> nat) \<times> ReferralCommissionRates) list \<Rightarrow> db
     \<Rightarrow> error option \<times> db" where
  "payCommissions fl t [] d = (None, d)"
| "payCommissions fl t ((referrer, rates) # rest) d =
     (case payCommission fl (p_id (fst referrer)) (rt_userId t) (rt_amount t) rates d of
        (Some e, d') \<Rightarrow> (Some e, d')
      | (None, d') \<Rightarrow> payCommissions fl t rest d')"

definition processReferralCommissions ::
  "faults \<Rightarrow> ReferralTransaction \<Rightarrow> db \<Rightarrow> error option \<times> db" where
  "processReferralCommissions fl t d =
     (let referralChain = getReferralChain fl d (rt_userId t)
      in if referralChain = [] then (None, d)
         else payCommissions fl t (zip referralChain commissionRates) d)"

text \<open>
  The \<open>totalReferrals\<close> field of \<open>ReferralService.getReferralStats(userId)\<close>: the number
  of distinct \<open>referred_id\<close>s among the user's commission records. The call throws when
  the commission query fails; the other queries of the function only feed \<open>levelStats\<close>.
\<close>

definition getReferralStats_totalReferrals :: "faults \<Rightarrow> db \<Rightarrow> uuid \<Rightarrow> error + nat" where
  "getReferralStats_totalReferrals fl d userId =
     (if fl (Select Referral_commissions) then Inl Failed_to_get_referral_stats
      else
        let commissions = filter (\<lambda>c. rc_referrer_id c = userId) (referral_commissions d)
        in Inr (length (remdups (map rc_referred_id commissions))))"

text \<open>
  The \<open>totalReferrals\<close> field of \<open>OptimizedReferralService.getReferralStats(userId)\<close>:
  the recursive count under the user's referral code, \<open>0\<close> for a user without a profile
  or without a code.
\<close>

definition getReferralStats_optimized_totalReferrals :: "faults \<Rightarrow> db \<Rightarrow> uuid \<Rightarrow> error + nat" where
  "getReferralStats_optimized_totalReferrals fl d userId =
     (case profile_by_id fl d userId of
        None \<Rightarrow> Inr 0
      | Some userProfile \<Rightarrow>
          (case referral_code userProfile of
             None \<Rightarrow> Inr 0
           | Some code \<Rightarrow>
               if code = [] then Inr 0
               else if fl (Select Referral_commissions)
                 then Inl (Database_error (Select Referral_commissions))
               else Inr (countAllReferralsRecursive fl d code 0 6)))"

section \<open>Daily profit distribution\<close>

definition MS_PER_DAY :: int where
  "MS_PER_DAY = 24 * 60 * 60 * 1000"

text \<open>\<open>date.toISOString().split('T')[0]\<close>: the UTC calendar date of a timestamp.\<close>

definition utc_date :: "int \<Rightarrow> int" where
  "utc_date t = t div MS_PER_DAY"

text \<open>\<open>date.setUTCHours(0, 0, 0, 0)\<close>: the timestamp of the start of the UTC day.\<close>

definition setUTCHours0 :: "int \<Rightarrow> int" where
  "setUTCHours0 t = (t div MS_PER_DAY) * MS_PER_DAY"

text \<open>\<open>new Date(distribution_date + 'T00:00:00.000Z')\<close>.\<close>

definition date_start :: "int \<Rightarrow> int" where
  "date_start day = day * MS_PER_DAY"

text \<open>
  \<open>.order('distribution_date', { ascending: false }).limit(1)\<close>: the row with the
  latest date, if there is a row.
\<close>

definition latest_distribution :: "profit_distribution list \<Rightarrow> profit_distribution list" where
  "latest_distribution rows = take 1 (rev (sort_key pd_distribution_date rows))"

text \<open>
  The decision the loop over the plans takes for one plan (lines 308 to 382 of the
  job): \<open>True\<close> when the plan is queued for a distribution dated today. A query whose
  \<open>data\<close> is \<open>null\<close> after an error counts as one that found no row.
\<close>

definition plan_is_due :: "faults \<Rightarrow> profit_distribution list \<Rightarrow> int \<Rightarrow> investment_plan \<Rightarrow> bool" where
  "plan_is_due fl rows today plan =
     (let planCreatedAt = ip_created_at plan;
          creationDate = setUTCHours0 planCreatedAt;
          firstDistributionDate = creationDate + MS_PER_DAY;
          firstDistributionDateStr = utc_date firstDistributionDate
      in if today < firstDistributionDateStr then False
         else
           let existingDistribution =
                 (if fl (Select Profit_distributions) then []
                  else filter (\<lambda>r. pd_plan_id r = ip_id plan \<and> pd_distribution_date r = today)
                         rows)
           in if existingDistribution \<noteq> [] then False
              else
                let lastDistribution =
                      (if fl (Select Profit_distributions) then []
                       else latest_distribution
                              (filter (\<lambda>r. pd_plan_id r = ip_id plan) rows));
                    nextDistributionDate =
                      (case lastDistribution of
                         r # _ \<Rightarrow> date_start (pd_distribution_date r) + MS_PER_DAY
                       | [] \<Rightarrow> firstDistributionDate);
                    nextDistributionDateStr = utc_date nextDistributionDate
                in today \<ge> nextDistributionDateStr)"

definition profitAmount :: "investment_plan \<Rightarrow> rat" where
  "profitAmount plan =
     (let dailyProfitRate = ip_daily_percentage plan / 100
      in ip_investment_amount plan * dailyProfitRate)"

text \<open>
  \<open>userUpdates\<close> is a JavaScript \<open>Map\<close> from user id to the profit queued for the user;
  it is an association list in insertion order.
\<close>

fun map_set :: "'k \<Rightarrow> 'v \<Rightarrow> ('k \<times> 'v) list \<Rightarrow> ('k \<times> 'v) list" where
  "map_set k v [] = [(k, v)]"
| "map_set k v ((k', v') # kvs) =
     (if k' = k then (k, v) # kvs else (k', v') # map_set k v kvs)"

text \<open>
  The loop over the plans: it only reads the database and fills \<open>profitDistributions\<close>
  and \<open>userUpdates\<close>.
\<close>

fun queue_distributions ::
  "faults \<Rightarrow> profit_distribution list \<Rightarrow> int \<Rightarrow> investment_plan list
     \<Rightarrow> profit_distribution list \<times> (uuid \<times> rat) list
     \<Rightarrow> profit_distribution list \<times> (uuid \<times> rat) list" where
  "queue_distributions fl rows today [] acc = acc"
| "queue_distributions fl rows today (plan # plans) (profitDistributions, userUpdates) =
     (if plan_is_due fl rows today plan
      then queue_distributions fl rows today plans
             (profitDistributions @
                [\<lparr>pd_plan_id = ip_id plan, pd_user_id = ip_user_id plan,
                  pd_profit_amount = profitAmount plan, pd_distribution_date = today\<rparr>],
              (case map_of userUpdates (ip_user_id plan) of
                 Some queuedTotal \<Rightarrow>
                   map_set (ip_user_id plan) (queuedTotal + profitAmount plan) userUpdates
               | None \<Rightarrow> map_set (ip_user_id plan) (profitAmount plan) userUpdates))
      else queue_distributions fl rows today plans (profitDistributions, userUpdates))"

text \<open>
  One round of the loop over \<open>userUpdates\<close> (lines 401 to 444): read the balance, write
  it back increased by the user's total, insert the \<open>profit\<close> transaction. A failed
  read or write skips the user; a failed insert is only logged.
\<close>

definition credit_user :: "faults \<Rightarrow> uuid \<times> rat \<Rightarrow> db \<Rightarrow> db" where
  "credit_user fl entry d =
     (let userId = fst entry; totalProfit = snd entry
      in case profile_by_id fl d userId of
        None \<Rightarrow> d
      | Some currentProfile \<Rightarrow>
          if fl (Update Profiles) then d
          else
            let d1 = set_main_wallet_balance userId
                       (main_wallet_balance currentProfile + totalProfit) d
            in if fl (Insert Transactions) then d1
               else insert_transaction
                      \<lparr>tx_id = 0, tx_user_id = userId, tx_transaction_type = ''profit'',
                       tx_amount = totalProfit, tx_fee = None, tx_net_amount = Some totalProfit,
                       tx_status = completed, tx_reference_id = None, tx_plan_id = None\<rparr> d1)"

text \<open>
  One round of the loop over \<open>profitDistributions\<close> (lines 447 to 470): read the plan's
  accumulator and write it back increased by the distributed amount.
\<close>

definition credit_plan :: "faults \<Rightarrow> profit_distribution \<Rightarrow> db \<Rightarrow> db" where
  "credit_plan fl distribution d =
     (case (if fl (Select Investment_plans) then None
            else single_row (filter (\<lambda>pl. ip_id pl = pd_plan_id distribution)
                               (investment_plans d))) of
        None \<Rightarrow> d
      | Some currentPlan \<Rightarrow>
          if fl (Update Investment_plans) then d
          else d\<lparr>investment_plans :=
                 map (\<lambda>pl. if ip_id pl = pd_plan_id distribution
                           then pl\<lparr>ip_total_profit_earned :=
                                  ip_total_profit_earned currentPlan
                                    + pd_profit_amount distribution\<rparr>
                           else pl)
                     (investment_plans d)\<rparr>)"

text \<open>
  The plans the job works on: the active plans, inner-joined with their owner's profile
  (\<open>profiles!inner(id)\<close>).
\<close>

definition active_plans :: "db \<Rightarrow> investment_plan list" where
  "active_plans d =
     filter (\<lambda>pl. ip_is_active pl \<and> ip_user_id pl \<in> set (map p_id (profiles d)))
       (investment_plans d)"

text \<open>\<open>distributeInvestmentProfits()\<close>, run at the time \<open>now\<close>.\<close>

definition distributeInvestmentProfits :: "faults \<Rightarrow> int \<Rightarrow> db \<Rightarrow> db" where
  "distributeInvestmentProfits fl now d =
     (if fl (Select Investment_plans) then d
      else
        let plans = active_plans d
        in if plans = [] then d
           else
             let today = utc_date now;
                 queued = queue_distributions fl (profit_distributions d) today plans ([], []);
                 profitDistributions = fst queued;
                 userUpdates = snd queued
             in if profitDistributions = [] then d
                else if fl (Insert Profit_distributions) then d
                else
                  let d1 = d\<lparr>profit_distributions :=
                               profit_distributions d @ profitDistributions\<rparr>;
                      d2 = fold (credit_user fl) userUpdates d1;
                      d3 = fold (credit_plan fl) profitDistributions d2
                  in d3)"

section \<open>Stored procedures\<close>

text \<open>
  A PL/pgSQL function runs in one database transaction: \<open>RAISE EXCEPTION\<close> ends the call
  and undoes its writes, so the database after a raise is the database before the call.
  \<open>SELECT ... INTO\<close> takes the first row the query finds and gives \<open>NULL\<close> when there
  is none; a comparison with \<open>NULL\<close> is not true.
\<close>

datatype sql_exception =
    Access_denied
  | Withdrawal_request_not_found_or_already_processed
  | User_has_insufficient_balance_for_withdrawal

text \<open>\<open>p_request_id::TEXT\<close>: identifiers are numbers here, their text is their decimal digits.\<close>

function uuid_text :: "uuid \<Rightarrow> string" where
  "uuid_text n =
     (if n < 10 then [''0123456789'' ! n]
      else uuid_text (n div 10) @ [''0123456789'' ! (n mod 10)])"
  by pat_completeness auto
termination
  by (relation "measure (\<lambda>n. n)") auto

declare uuid_text.simps [simp del]

text \<open>\<open>EXISTS (SELECT 1 FROM profiles WHERE id = auth.uid() AND is_admin = TRUE)\<close>.\<close>

definition caller_is_admin :: "uuid option \<Rightarrow> db \<Rightarrow> bool" where
  "caller_is_admin auth_uid d =
     (filter (\<lambda>p. Some (p_id p) = auth_uid \<and> is_admin p) (profiles d) \<noteq> [])"

text \<open>\<open>approve_withdrawal_request(p_request_id, p_admin_notes)\<close>, called by \<open>auth_uid\<close>.\<close>

definition approve_withdrawal_request ::
  "uuid option \<Rightarrow> uuid \<Rightarrow> string option \<Rightarrow> db \<Rightarrow> (sql_exception + bool) \<times> db" where
  "approve_withdrawal_request auth_uid p_request_id p_admin_notes d =
     (if \<not> caller_is_admin auth_uid d then (Inl Access_denied, d)
      else
        case find (\<lambda>w. wr_id w = p_request_id \<and> wr_status w = req_pending)
               (withdrawal_requests d) of
          None \<Rightarrow> (Inl Withdrawal_request_not_found_or_already_processed, d)
        | Some withdrawal_record \<Rightarrow>
            let user_balance =
                  map_option main_wallet_balance
                    (find (\<lambda>p. p_id p = wr_user_id withdrawal_record) (profiles d))
            in if (case user_balance of
                     None \<Rightarrow> False
                   | Some b \<Rightarrow> b < wr_amount withdrawal_record)
               then (Inl User_has_insufficient_balance_for_withdrawal, d)
               else
                 (Inr True,
                  d\<lparr>profiles :=
                      map (\<lambda>p. if p_id p = wr_user_id withdrawal_record
                                then p\<lparr>main_wallet_balance :=
                                       main_wallet_balance p - wr_amount withdrawal_record\<rparr>
                                else p)
                        (profiles d),
                    withdrawal_requests :=
                      map (\<lambda>w. if wr_id w = p_request_id
                                then w\<lparr>wr_status := req_approved, wr_admin_notes := p_admin_notes\<rparr>
                                else w)
                        (withdrawal_requests d),
                    transactions :=
                      map (\<lambda>x. if tx_reference_id x = Some (uuid_text p_request_id)
                                   \<and> tx_transaction_type x = ''withdrawal''
                                then x\<lparr>tx_status := completed\<rparr>
                                else x)
                        (transactions d)\<rparr>))"

text \<open>\<open>reject_withdrawal_request(p_request_id, p_admin_notes)\<close>, called by \<open>auth_uid\<close>.\<close>

definition reject_withdrawal_request ::
  "uuid option \<Rightarrow> uuid \<Rightarrow> string option \<Rightarrow> db \<Rightarrow> (sql_exception + bool) \<times> db" where
  "reject_withdrawal_request auth_uid p_request_id p_admin_notes d =
     (if \<not> caller_is_admin auth_uid d then (Inl Access_denied, d)
      else if filter (\<lambda>w. wr_id w = p_request_id \<and> wr_status w = req_pending)
                (withdrawal_requests d) = []
      then (Inl Withdrawal_request_not_found_or_already_processed, d)
      else
        (Inr True,
         d\<lparr>withdrawal_requests :=
             map (\<lambda>w. if wr_id w = p_request_id \<and> wr_status w = req_pending
                       then w\<lparr>wr_status := req_rejected, wr_admin_notes := p_admin_notes\<rparr>
                       else w)
               (withdrawal_requests d),
           transactions :=
             map (\<lambda>x. if tx_reference_id x = Some (uuid_text p_request_id)
                          \<and> tx_transaction_type x = ''withdrawal''
                       then x\<lparr>tx_status := failed\<rparr>
                       else x)
               (transactions d)\<rparr>))"

text \<open>
  A value assigned to a variable declared \<open>DECIMAL(15,2)\<close> is rounded to two decimal
  places, ties away from zero; a rounded value of 13 or more integer digits raises
  \<open>numeric field overflow\<close>.
\<close>

definition round_2 :: "rat \<Rightarrow> rat" where
  "round_2 x =
     (if 0 \<le> x then of_int \<lfloor>x * 100 + 1 / 2\<rfloor> / 100
      else - (of_int \<lfloor>- x * 100 + 1 / 2\<rfloor> / 100))"

definition decimal_15_2 :: "rat \<Rightarrow> rat option" where
  "decimal_15_2 x = (if \<bar>round_2 x\<bar> < 10 ^ 13 then Some (round_2 x) else None)"

text \<open>
  The JSON object the function returns: \<open>{success: false, error}\<close>, or
  \<open>{success: true, transaction_id, amount, fee, net_amount, user_id}\<close>.
\<close>

datatype deposit_approval_result =
    Approval_failed string
  | Approval_succeeded uuid rat rat rat uuid

text \<open>
  \<open>process_manual_deposit_approval(p_request_id, p_admin_id, p_admin_notes)\<close>. The
  function catches every exception (\<open>EXCEPTION WHEN OTHERS\<close>) and returns a failure
  object; its writes are undone.
\<close>

definition process_manual_deposit_approval ::
  "uuid \<Rightarrow> uuid \<Rightarrow> string option \<Rightarrow> db \<Rightarrow> deposit_approval_result \<times> db" where
  "process_manual_deposit_approval p_request_id p_admin_id p_admin_notes d =
     (case find (\<lambda>r. dr_id r = p_request_id \<and> dr_status r = req_pending) (deposit_requests d) of
        None \<Rightarrow> (Approval_failed ''Deposit request not found or already processed'', d)
      | Some v_request \<Rightarrow>
          (case decimal_15_2 (dr_amount v_request * (1 / 100)) of
             None \<Rightarrow> (Approval_failed ''numeric field overflow'', d)
           | Some v_fee_amount \<Rightarrow>
               (case decimal_15_2 (dr_amount v_request - v_fee_amount) of
                  None \<Rightarrow> (Approval_failed ''numeric field overflow'', d)
                | Some v_net_amount \<Rightarrow>
                    let v_transaction_id = next_uuid d;
                        d1 = insert_transaction
                               \<lparr>tx_id = 0, tx_user_id = dr_user_id v_request,
                                tx_transaction_type = ''deposit'', tx_amount = v_net_amount,
                                tx_fee = Some v_fee_amount, tx_net_amount = Some v_net_amount,
                                tx_status = completed,
                                tx_reference_id = dr_tx_hash v_request, tx_plan_id = None\<rparr> d;
                        d2 = d1\<lparr>profiles :=
                               map (\<lambda>p. if p_id p = dr_user_id v_request
                                         then p\<lparr>main_wallet_balance :=
                                                main_wallet_balance p + v_net_amount\<rparr>
                                         else p)
                                 (profiles d1)\<rparr>;
                        d3 = d2\<lparr>deposit_requests :=
                               map (\<lambda>r. if dr_id r = p_request_id
                                         then r\<lparr>dr_status := req_approved,
                                                dr_processed_by := Some p_admin_id,
                                                dr_admin_notes := p_admin_notes\<rparr>
                                         else r)
                                 (deposit_requests d2)\<rparr>
                    in (Approval_succeeded v_transaction_id (dr_amount v_request)
                          v_fee_amount v_net_amount (dr_user_id v_request), d3))))"

section \<open>Route handlers and the investment form\<close>

text \<open>
  A handler takes the fields of the JSON request body and the database and returns the
  HTTP response with the database it leaves. A field of the body is \<open>None\<close> when it is
  missing or falsy; a numeric field holds the number \<open>parseFloat\<close> reads (text that is
  not a number is outside the model). The e-mail notifications the handlers attempt
  write nothing to the database and their failures are caught; they are left out.
\<close>

datatype body =
    Error_message string
  | Insufficient_fund_wallet_balance rat rat
  | Deposit_submitted rat string
  | Success_message string
  | Ton_purchased rat rat

type_synonym response = "nat \<times> body"

subsection \<open>\<open>POST /api/ton/purchase\<close>\<close>


subsection \<open>\<open>POST /api/bsc/deposit\<close>\<close>

definition deposit_POST ::
  "faults \<Rightarrow> string option \<Rightarrow> rat option \<Rightarrow> uuid option \<Rightarrow> db \<Rightarrow> response \<times> db" where
  "deposit_POST fl txHash expectedAmount userId d =
     (case userId of
        None \<Rightarrow> ((400, Error_message ''User ID is required''), d)
      | Some uid \<Rightarrow>
          (case txHash of
             None \<Rightarrow> ((400, Error_message ''Transaction hash is required''), d)
           | Some hash \<Rightarrow>
               if hash = [] then ((400, Error_message ''Transaction hash is required''), d)
               else
                 (case expectedAmount of
                    None \<Rightarrow> ((400, Error_message ''Valid deposit amount is required''), d)
                  | Some expectedAmountNum \<Rightarrow>
                      if expectedAmountNum < 10
                      then ((400, Error_message ''Minimum deposit amount is $10 USDT''), d)
                      else if expectedAmountNum > 50000
                      then ((400, Error_message ''Maximum deposit amount is $50,000 USDT''), d)
                      else
                        (case profile_by_id fl d uid of
                           None \<Rightarrow> ((404, Error_message ''User profile not found''), d)
                         | Some profile \<Rightarrow>
                             let depositAmount = expectedAmountNum;
                                 existingTx =
                                   (if fl (Select Transactions) then None
                                    else single_row
                                           (filter (\<lambda>x. tx_reference_id x = Some hash)
                                              (transactions d)))
                             in if existingTx \<noteq> None
                                then ((400, Error_message ''Transaction already processed''), d)
                                else if fl (Insert Transactions)
                                then ((500, Error_message ''Failed to record deposit''), d)
                                else
                                  ((200, Deposit_submitted depositAmount hash),
                                   insert_transaction
                                     \<lparr>tx_id = 0, tx_user_id = uid,
                                      tx_transaction_type = ''deposit'',
                                      tx_amount = depositAmount, tx_fee = None,
                                      tx_net_amount = None, tx_status = pending,
                                      tx_reference_id = Some hash, tx_plan_id = None\<rparr> d)))))"

subsection \<open>\<open>PUT /api/bsc/deposit\<close>\<close>

text \<open>
  The stored procedure \<open>process_bsc_deposit\<close> the handler calls is not among the sources:
  what it writes is the parameter \<open>process_bsc_deposit\<close>, a function of the arguments
  \<open>p_user_id\<close>, \<open>p_deposit_amount\<close>, \<open>p_fee_amount\<close>, \<open>p_net_amount\<close> and \<open>p_tx_hash\<close>.
  The result of the final \<open>update\<close> of the transaction is not inspected by the handler.
\<close>

type_synonym rpc = "uuid \<Rightarrow> rat \<Rightarrow> rat \<Rightarrow> rat \<Rightarrow> string option \<Rightarrow> db \<Rightarrow> db"

definition deposit_PUT ::
  "faults \<Rightarrow> rpc \<Rightarrow> uuid option \<Rightarrow> bool option \<Rightarrow> db \<Rightarrow> response \<times> db" where
  "deposit_PUT fl process_bsc_deposit transactionId approve d =
     (case (transactionId, approve) of
        (Some tid, Some approved) \<Rightarrow>
          (case (if fl (Select Transactions) then None
                 else single_row
                        (filter (\<lambda>x. tx_id x = tid \<and> tx_transaction_type x = ''deposit''
                                      \<and> tx_status x = pending)
                           (transactions d))) of
             None \<Rightarrow> ((404, Error_message ''Deposit transaction not found''), d)
           | Some tx \<Rightarrow>
               if approved then
                 let depositAmount = tx_amount tx;
                     fee = depositAmount * (1 / 100);
                     netAmount = depositAmount - fee
                 in if fl (Rpc ''process_bsc_deposit'')
                    then ((500, Error_message ''Failed to process deposit''), d)
                    else
                      let d1 = process_bsc_deposit (tx_user_id tx) depositAmount fee netAmount
                                 (tx_reference_id tx) d;
                          d2 = snd (processReferralCommissions fl
                                      \<lparr>rt_userId = tx_user_id tx, rt_amount = depositAmount,
                                       rt_transactionType = ''deposit'',
                                       rt_planType = Some ''deposit''\<rparr> d1);
                          d3 = (if fl (Update Transactions) then d2
                                else d2\<lparr>transactions :=
                                          map (\<lambda>x. if tx_id x = tid
                                                    then x\<lparr>tx_status := completed\<rparr> else x)
                                            (transactions d2)\<rparr>)
                      in ((200, Success_message ''Deposit approved and processed successfully''),
                          d3)
               else
                 ((200, Success_message ''Deposit rejected and removed''),
                  (if fl (Delete Transactions) then d
                   else d\<lparr>transactions := filter (\<lambda>x. tx_id x \<noteq> tid) (transactions d)\<rparr>)))
      | _ \<Rightarrow> ((400, Error_message ''Transaction ID and approval status are required''), d))"

subsection \<open>\<open>handleInvest\<close> of the investment page\<close>

text \<open>
  The page offers one plan (\<open>A\<close>: 10 to 50000, 3 percent a day). \<open>handleInvest\<close> reads the
  form (\<open>selectedPlan\<close>, \<open>amount\<close>), the signed-in user and the fund wallet balance the
  page fetched earlier (\<open>profile\<close>, \<open>None\<close> while not loaded), and writes to the database
  directly. The inserted plan takes the table's defaults: a generated id, no profit
  earned, active, created now.
\<close>

datatype invest_outcome = Nothing_done | Error_shown string | Success_shown

definition handleInvest ::
  "faults \<Rightarrow> int \<Rightarrow> uuid \<Rightarrow> rat option \<Rightarrow> bool \<Rightarrow> rat option \<Rightarrow> db \<Rightarrow> invest_outcome \<times> db" where
  "handleInvest fl now user profile selectedPlan amount d =
     (case (selectedPlan, amount) of
        (True, Some investAmount) \<Rightarrow>
          if investAmount < 10 \<or> investAmount > 50000
          then (Error_shown ''Investment amount must be between $10 and $50000'', d)
          else
            (case profile of
               None \<Rightarrow> (Error_shown ''Insufficient fund wallet balance'', d)
             | Some cached_fund_wallet_balance \<Rightarrow>
                 if investAmount > cached_fund_wallet_balance
                 then (Error_shown ''Insufficient fund wallet balance'', d)
                 else if fl (Insert Investment_plans)
                 then (Error_shown ''insert into investment_plans failed'', d)
                 else
                   let investmentPlan =
                         \<lparr>ip_id = next_uuid d, ip_user_id = user, ip_plan_type = ''A'',
                          ip_investment_amount = investAmount, ip_daily_percentage = 3,
                          ip_total_profit_earned = 0, ip_is_active = True,
                          ip_created_at = now\<rparr>;
                       d1 = d\<lparr>investment_plans := investment_plans d @ [investmentPlan],
                              next_uuid := next_uuid d + 1\<rparr>
                   in if fl (Update Profiles)
                      then (Error_shown ''update of profiles failed'', d1)
                      else
                        let d2 = d1\<lparr>profiles :=
                                   map (\<lambda>p. if p_id p = user
                                             then p\<lparr>fund_wallet_balance :=
                                                    cached_fund_wallet_balance - investAmount\<rparr>
                                             else p)
                                     (profiles d1)\<rparr>
                        in if fl (Insert Transactions)
                           then (Error_shown ''insert into transactions failed'', d2)
                           else
                             let d3 = insert_transaction
                                        \<lparr>tx_id = 0, tx_user_id = user,
                                         tx_transaction_type = ''investment'',
                                         tx_amount = investAmount, tx_fee = None,
                                         tx_net_amount = Some investAmount,
                                         tx_status = completed, tx_reference_id = None,
                                         tx_plan_id = Some (ip_id investmentPlan)\<rparr> d2;
                                 d4 = snd (processReferralCommissions fl
                                             \<lparr>rt_userId = user, rt_amount = investAmount,
                                              rt_transactionType = ''investment'',
                                              rt_planType = Some ''USDT Staking''\<rparr> d3)
                             in (Success_shown, d4))
      | _ \<Rightarrow> (Nothing_done, d))"

subsection \<open>Notions used to state and prove the properties\<close>

text \<open>The row the loop queues for a plan that is due today.\<close>

definition queued_row :: "int \<Rightarrow> investment_plan \<Rightarrow> profit_distribution" where
  "queued_row today plan =
     \<lparr>pd_plan_id = ip_id plan, pd_user_id = ip_user_id plan,
      pd_profit_amount = profitAmount plan, pd_distribution_date = today\<rparr>"

text \<open>A plan without its accumulator: what the job never changes of a plan.\<close>

definition erase_total :: "investment_plan \<Rightarrow> investment_plan" where
  "erase_total pl = pl\<lparr>ip_total_profit_earned := 0\<rparr>"

text \<open>The main wallet of a user and the accumulator of a plan, read from the tables.\<close>

definition main_wallet_of :: "db \<Rightarrow> uuid \<Rightarrow> rat option" where
  "main_wallet_of d userId =
     map_option main_wallet_balance (find (\<lambda>p. p_id p = userId) (profiles d))"

definition total_profit_of :: "db \<Rightarrow> uuid \<Rightarrow> rat option" where
  "total_profit_of d planId =
     map_option ip_total_profit_earned (find (\<lambda>pl. ip_id pl = planId) (investment_plans d))"

text \<open>
  What \<open>userUpdates\<close> holds for a user, and what \<open>profitDistributions\<close> holds for a plan.
\<close>

definition queued_for :: "(uuid \<times> rat) list \<Rightarrow> uuid \<Rightarrow> rat" where
  "queued_for al u = sum_list (map snd (filter (\<lambda>e. fst e = u) al))"

definition plan_queued :: "profit_distribution list \<Rightarrow> uuid \<Rightarrow> rat" where
  "plan_queued rs k = sum_list (map pd_profit_amount (filter (\<lambda>r. pd_plan_id r = k) rs))"


definition commission_for ::
  "uuid \<Rightarrow> rat \<Rightarrow> ((profile \<times> nat) \<times> ReferralCommissionRates) list \<Rightarrow> rat" where
  "commission_for userId amount pairs =
     sum_list (map (\<lambda>pair. if p_id (fst (fst pair)) = userId
                             then amount * usdtRate (snd pair) / 100 else 0) pairs)"

text \<open>The references the ledger rows carry, in table order.\<close>

definition reference_ids :: "db \<Rightarrow> string list" where
  "reference_ids d = List.map_filter tx_reference_id (transactions d)"

section \<open>Example databases\<close>

definition empty_db :: db where
  "empty_db = \<lparr>profiles = [], investment_plans = [], profit_distributions = [],
     transactions = [], referral_commissions = [], withdrawal_requests = [],
     deposit_requests = [], next_uuid = 1000\<rparr>"

definition new_profile :: "uuid \<Rightarrow> string \<Rightarrow> string option \<Rightarrow> profile" where
  "new_profile userId code sponsor =
     \<lparr>p_id = userId, referral_code = Some code, sponsor_id = sponsor,
      main_wallet_balance = 0, fund_wallet_balance = 0, total_jarvis_tokens = 0,
      is_admin = False\<rparr>"

text \<open>User 1 referred user 2, who referred user 3; nobody has deposited yet.\<close>

definition referral_tree_db :: db where
  "referral_tree_db = empty_db\<lparr>profiles :=
     [new_profile 1 ''U1'' None,
      new_profile 2 ''U2'' (Some ''U1''),
      new_profile 3 ''U3'' (Some ''U2'')]\<rparr>"

definition new_plan :: "uuid \<Rightarrow> uuid \<Rightarrow> rat \<Rightarrow> rat \<Rightarrow> int \<Rightarrow> investment_plan" where
  "new_plan planId userId amount percentage createdAt =
     \<lparr>ip_id = planId, ip_user_id = userId, ip_plan_type = ''A'',
      ip_investment_amount = amount, ip_daily_percentage = percentage,
      ip_total_profit_earned = 0, ip_is_active = True, ip_created_at = createdAt\<rparr>"

text \<open>
  User 1 holds one plan of 1000 at 3 percent a day, created on day 0 at 23:00 UTC
  (82800000 ms after the epoch).
\<close>

definition one_plan_db :: db where
  "one_plan_db = empty_db\<lparr>profiles := [new_profile 1 ''U1'' None],
     investment_plans := [new_plan 7 1 1000 3 82800000]\<rparr>"



text \<open>
  User 1 is an administrator. User 2 has 50 in the main wallet and two pending
  withdrawal requests, of 30 and of 80.
\<close>

definition withdrawal_db :: db where
  "withdrawal_db = empty_db\<lparr>profiles :=
       [(new_profile 1 ''U1'' None)\<lparr>is_admin := True\<rparr>,
        (new_profile 2 ''U2'' None)\<lparr>main_wallet_balance := 50\<rparr>],
     withdrawal_requests :=
       [\<lparr>wr_id = 5, wr_user_id = 2, wr_amount = 30, wr_status = req_pending,
         wr_admin_notes = None\<rparr>,
        \<lparr>wr_id = 6, wr_user_id = 2, wr_amount = 80, wr_status = req_pending,
         wr_admin_notes = None\<rparr>]\<rparr>"

text \<open>
  User 2 has 50 in the main wallet and two pending manual deposit requests, of 10.50
  and of 200.
\<close>

definition deposit_request_db :: db where
  "deposit_request_db = empty_db\<lparr>profiles :=
       [(new_profile 1 ''U1'' None)\<lparr>is_admin := True\<rparr>,
        (new_profile 2 ''U2'' None)\<lparr>main_wallet_balance := 50\<rparr>],
     deposit_requests :=
       [\<lparr>dr_id = 8, dr_user_id = 2, dr_amount = 21 / 2, dr_tx_hash = Some ''0xabc'',
         dr_status = req_pending, dr_processed_by = None, dr_admin_notes = None\<rparr>,
        \<lparr>dr_id = 9, dr_user_id = 2, dr_amount = 200, dr_tx_hash = Some ''0xdef'',
         dr_status = req_pending, dr_processed_by = None, dr_admin_notes = None\<rparr>]\<rparr>"

text \<open>
  User 2, referred by user 1, has 30 in the fund wallet and one pending deposit of 100
  with the reference \<open>0xabc\<close>.
\<close>

definition pending_deposit_db :: db where
  "pending_deposit_db = empty_db\<lparr>profiles :=
       [new_profile 1 ''U1'' None,
        (new_profile 2 ''U2'' (Some ''U1''))\<lparr>fund_wallet_balance := 30\<rparr>],
     transactions :=
       [\<lparr>tx_id = 50, tx_user_id = 2, tx_transaction_type = ''deposit'', tx_amount = 100,
         tx_fee = None, tx_net_amount = None, tx_status = pending,
         tx_reference_id = Some ''0xabc'', tx_plan_id = None\<rparr>]\<rparr>"

text \<open>A run in which the only call that fails is the insert of a commission record.\<close>

definition commission_record_insert_fails :: faults where
  "commission_record_insert_fails = (\<lambda>c. c = Insert Referral_commissions)"

text \<open>
  An instance of the stored procedure \<open>process_bsc_deposit\<close> for the examples: it adds
  the net amount to the user's fund wallet.
\<close>

definition example_process_bsc_deposit :: rpc where
  "example_process_bsc_deposit p_user_id p_deposit_amount p_fee_amount p_net_amount p_tx_hash d =
     d\<lparr>profiles :=
         map (\<lambda>p. if p_id p = p_user_id
                   then p\<lparr>fund_wallet_balance := fund_wallet_balance p + p_net_amount\<rparr>
                   else p)
           (profiles d)\<rparr>"

text \<open>The same database with a second ledger row that carries the reference \<open>0xabc\<close>.\<close>

definition repeated_reference_db :: db where
  "repeated_reference_db = pending_deposit_db\<lparr>transactions :=
     transactions pending_deposit_db @
       [\<lparr>tx_id = 51, tx_user_id = 2, tx_transaction_type = ''deposit'', tx_amount = 99,
         tx_fee = Some 1, tx_net_amount = Some 99, tx_status = completed,
         tx_reference_id = Some ''0xabc'', tx_plan_id = None\<rparr>]\<rparr>"

section \<open>Verified properties\<close>

subsection \<open>Daily profit distribution\<close>

lemma first_distribution_date:
  "utc_date (setUTCHours0 t + MS_PER_DAY) = utc_date t + 1"
  by (simp add: utc_date_def setUTCHours0_def MS_PER_DAY_def)

lemma utc_date_date_start: "utc_date (date_start day + MS_PER_DAY) = day + 1"
  by (simp add: utc_date_def date_start_def MS_PER_DAY_def)

lemma plan_not_due_on_creation_date:
  "today \<le> utc_date (ip_created_at plan) \<Longrightarrow> \<not> plan_is_due fl rows today plan"
  by (simp add: plan_is_due_def Let_def first_distribution_date)

lemma plan_is_due_erase: "plan_is_due fl rows today (erase_total pl) = plan_is_due fl rows today pl"
  by (simp add: plan_is_due_def erase_total_def)

lemma fst_queue_distributions:
  "fst (queue_distributions fl rows today plans (pds, uu)) =
     pds @ map (queued_row today) (filter (plan_is_due fl rows today) plans)"
  by (induction plans arbitrary: pds uu) (simp_all add: queued_row_def)

lemma plan_is_due_append_other:
  assumes "\<forall>r \<in> set new. pd_plan_id r \<noteq> ip_id pl"
  shows "plan_is_due fl (rows @ new) today pl = plan_is_due fl rows today pl"
proof -
  have "filter (\<lambda>r. pd_plan_id r = ip_id pl) new = []"
    using assms by (simp add: filter_empty_conv)
  moreover have "filter (\<lambda>r. pd_plan_id r = ip_id pl \<and> pd_distribution_date r = today) new = []"
    using assms by (simp add: filter_empty_conv)
  ultimately show ?thesis by (simp add: plan_is_due_def)
qed

lemma plan_is_due_append_same:
  assumes "r \<in> set new" "pd_plan_id r = ip_id pl" "pd_distribution_date r = today"
  shows "\<not> plan_is_due no_faults (rows @ new) today pl"
proof -
  have "filter (\<lambda>r. pd_plan_id r = ip_id pl \<and> pd_distribution_date r = today) new \<noteq> []"
    using assms by (auto simp: filter_empty_conv)
  then show ?thesis by (simp add: plan_is_due_def no_faults_def Let_def)
qed

lemma not_due_after_append:
  assumes "\<forall>r \<in> set new. pd_distribution_date r = today"
    and "\<not> plan_is_due no_faults rows today pl"
  shows "\<not> plan_is_due no_faults (rows @ new) today pl"
proof (cases "\<exists>r \<in> set new. pd_plan_id r = ip_id pl")
  case True
  then show ?thesis using assms(1) plan_is_due_append_same by blast
next
  case False
  then show ?thesis using assms(2) by (simp add: plan_is_due_append_other)
qed

lemma not_due_after_queue:
  assumes "pl \<in> set plans"
  shows "\<not> plan_is_due no_faults
           (rows @ map (queued_row today) (filter (plan_is_due no_faults rows today) plans)) today pl"
proof (cases "plan_is_due no_faults rows today pl")
  case True
  with assms have "queued_row today pl \<in> set (map (queued_row today) (filter (plan_is_due no_faults rows today) plans))"
    by simp
  then show ?thesis
    by (rule plan_is_due_append_same) (simp_all add: queued_row_def)
next
  case False
  then show ?thesis
    by (intro not_due_after_append) (auto simp: queued_row_def)
qed


lemma queue_none_due:
  "\<forall>pl \<in> set plans. \<not> plan_is_due fl rows today pl \<Longrightarrow>
   queue_distributions fl rows today plans acc = acc"
  by (induction plans arbitrary: acc) (auto split: prod.splits)

lemma credit_user_frame:
  "profit_distributions (credit_user fl e d) = profit_distributions d"
  "investment_plans (credit_user fl e d) = investment_plans d"
  "map p_id (profiles (credit_user fl e d)) = map p_id (profiles d)"
  by (auto simp: credit_user_def Let_def set_main_wallet_balance_def insert_transaction_def
      split: option.splits)

lemma fold_credit_user_frame:
  "profit_distributions (fold (credit_user fl) al d) = profit_distributions d"
  "investment_plans (fold (credit_user fl) al d) = investment_plans d"
  "map p_id (profiles (fold (credit_user fl) al d)) = map p_id (profiles d)"
  by (induction al arbitrary: d) (simp_all add: credit_user_frame)

lemma erase_total_update [simp]:
  "erase_total (pl\<lparr>ip_total_profit_earned := v\<rparr>) = erase_total pl"
  by (simp add: erase_total_def)

lemma credit_plan_frame:
  "profit_distributions (credit_plan fl r d) = profit_distributions d"
  "profiles (credit_plan fl r d) = profiles d"
  "map erase_total (investment_plans (credit_plan fl r d)) = map erase_total (investment_plans d)"
  by (auto simp: credit_plan_def split: option.splits)

lemma fold_credit_plan_frame:
  "profit_distributions (fold (credit_plan fl) rs d) = profit_distributions d"
  "profiles (fold (credit_plan fl) rs d) = profiles d"
  "map erase_total (investment_plans (fold (credit_plan fl) rs d)) = map erase_total (investment_plans d)"
  by (induction rs arbitrary: d) (simp_all add: credit_plan_frame)

lemma erase_total_fields:
  "ip_is_active (erase_total pl) = ip_is_active pl"
  "ip_user_id (erase_total pl) = ip_user_id pl"
  by (simp_all add: erase_total_def)

lemma active_plans_erased:
  assumes "map erase_total (investment_plans d') = map erase_total (investment_plans d)"
    and "map p_id (profiles d') = map p_id (profiles d)"
    and "pl' \<in> set (active_plans d')"
  shows "\<exists>pl \<in> set (active_plans d). erase_total pl = erase_total pl'"
proof -
  from assms(3) have in': "pl' \<in> set (investment_plans d')" and act: "ip_is_active pl'"
    and own: "ip_user_id pl' \<in> set (map p_id (profiles d'))"
    by (simp_all add: active_plans_def)
  from in' have "erase_total pl' \<in> set (map erase_total (investment_plans d'))" by simp
  with assms(1) obtain pl where pl: "pl \<in> set (investment_plans d)" "erase_total pl = erase_total pl'"
    by auto
  from pl(2) have "ip_is_active pl = ip_is_active pl'" "ip_user_id pl = ip_user_id pl'"
    by (metis erase_total_fields)+
  with act own assms(2) pl(1) have "pl \<in> set (active_plans d)"
    by (simp add: active_plans_def)
  with pl(2) show ?thesis by blast
qed

lemma distribute_unfold:
  "distributeInvestmentProfits no_faults now d =
     (let pds = map (queued_row (utc_date now))
                  (filter (plan_is_due no_faults (profit_distributions d) (utc_date now)) (active_plans d))
      in if pds = [] then d
         else fold (credit_plan no_faults) pds
                (fold (credit_user no_faults)
                   (snd (queue_distributions no_faults (profit_distributions d) (utc_date now)
                           (active_plans d) ([], [])))
                   (d\<lparr>profit_distributions := profit_distributions d @ pds\<rparr>)))"
  by (auto simp: distributeInvestmentProfits_def Let_def fst_queue_distributions no_faults_def)


text \<open>The definitions a run of the job on a concrete database unfolds.\<close>

lemmas distribution_defs =
  distributeInvestmentProfits_def active_plans_def plan_is_due_def latest_distribution_def
  utc_date_def setUTCHours0_def date_start_def MS_PER_DAY_def profitAmount_def
  credit_user_def credit_plan_def profile_by_id_def single_row_def
  set_main_wallet_balance_def insert_transaction_def no_faults_def Let_def

text \<open>
  Claim C1, evaluated on the code. The claim says that a run earlier than 24 hours after
  the plan's \<open>created_at\<close> skips the plan. The job compares calendar dates only: a plan
  created on day 0 at 23:00 UTC is paid by a run on day 1 at 01:00 UTC, two hours after
  its creation. The run inserts the plan's distribution row and credits 30 to the
  accumulator and to the owner's main wallet.
\<close>

theorem first_distribution_two_hours_after_creation:
  "90000000 - ip_created_at (new_plan 7 1 1000 3 82800000) = 2 * 60 * 60 * 1000 \<and>
   profit_distributions (distributeInvestmentProfits no_faults 90000000 one_plan_db) =
     [\<lparr>pd_plan_id = 7, pd_user_id = 1, pd_profit_amount = 30, pd_distribution_date = 1\<rparr>] \<and>
   main_wallet_of one_plan_db 1 = Some 0 \<and>
   main_wallet_of (distributeInvestmentProfits no_faults 90000000 one_plan_db) 1 = Some 30 \<and>
   total_profit_of (distributeInvestmentProfits no_faults 90000000 one_plan_db) 7 = Some 30"
  by (simp add: distribution_defs one_plan_db_def empty_db_def new_plan_def new_profile_def
      main_wallet_of_def total_profit_of_def)

lemma queued_for_simps [simp]:
  "queued_for [] u = 0"
  "queued_for (e # al) u = (if fst e = u then snd e else 0) + queued_for al u"
  by (simp_all add: queued_for_def)



lemma distinct_filter_le1:
  "distinct (map f xs) \<Longrightarrow> filter (\<lambda>x. f x = k) xs = [] \<or> (\<exists>x. filter (\<lambda>x. f x = k) xs = [x])"
proof (induction xs)
  case Nil
  then show ?case by simp
next
  case (Cons a xs)
  show ?case
  proof (cases "f a = k")
    case True
    with Cons.prems have "\<forall>x \<in> set xs. f x \<noteq> k" by (auto simp: image_iff)
    then have "filter (\<lambda>x. f x = k) xs = []" by (simp add: filter_empty_conv)
    with True show ?thesis by simp
  next
    case False
    with Cons show ?thesis by simp
  qed
qed

lemma distinct_filter_member:
  "distinct (map f xs) \<Longrightarrow> x \<in> set xs \<Longrightarrow> filter (\<lambda>y. f y = f x) xs = [x]"
proof -
  assume d: "distinct (map f xs)" and x: "x \<in> set xs"
  from x have mem: "x \<in> set (filter (\<lambda>y. f y = f x) xs)" by simp
  from distinct_filter_le1 [OF d, of "f x"] show ?thesis
  proof
    assume e: "filter (\<lambda>y. f y = f x) xs = []"
    from mem [unfolded e] show ?thesis by simp
  next
    assume "\<exists>y. filter (\<lambda>y. f y = f x) xs = [y]"
    then obtain y where y: "filter (\<lambda>y. f y = f x) xs = [y]" ..
    from mem [unfolded y] have "x = y" by simp
    with y show ?thesis by simp
  qed
qed




lemma plan_queued_simps [simp]:
  "plan_queued [] k = 0"
  "plan_queued (r # rs) k = (if pd_plan_id r = k then pd_profit_amount r else 0) + plan_queued rs k"
  by (simp_all add: plan_queued_def)











text \<open>
  Claim C3. A second run of the job on the same calendar day changes nothing: every
  plan the first run paid now has a distribution row dated today and is skipped, and
  every plan the first run skipped is skipped again. The whole database after the
  second run, with every wallet, every accumulator and the distribution rows, is the
  database after the first run.
\<close>

theorem distribution_idempotent_same_day:
  "utc_date now2 = utc_date now1 \<Longrightarrow>
   distributeInvestmentProfits no_faults now2 (distributeInvestmentProfits no_faults now1 d)
     = distributeInvestmentProfits no_faults now1 d"
proof -
  assume same: "utc_date now2 = utc_date now1"
  define today where "today = utc_date now1"
  define rows where "rows = profit_distributions d"
  define pds where "pds = map (queued_row today) (filter (plan_is_due no_faults rows today) (active_plans d))"
  define d1 where "d1 = distributeInvestmentProfits no_faults now1 d"
  have none_due: "\<forall>pl' \<in> set (active_plans d1). \<not> plan_is_due no_faults (profit_distributions d1) today pl'"
  proof
    fix pl' assume pl': "pl' \<in> set (active_plans d1)"
    have frames: "map erase_total (investment_plans d1) = map erase_total (investment_plans d)"
      "map p_id (profiles d1) = map p_id (profiles d)"
      "profit_distributions d1 = rows @ pds"
      unfolding d1_def distribute_unfold Let_def pds_def rows_def today_def
      by (simp_all add: fold_credit_plan_frame fold_credit_user_frame)
    from active_plans_erased [OF frames(1,2) pl'] obtain pl where
      pl: "pl \<in> set (active_plans d)" "erase_total pl = erase_total pl'" by blast
    have "\<not> plan_is_due no_faults (rows @ pds) today pl"
      unfolding pds_def using pl(1) by (rule not_due_after_queue)
    then have "\<not> plan_is_due no_faults (rows @ pds) today pl'"
      using pl(2) by (metis plan_is_due_erase)
    then show "\<not> plan_is_due no_faults (profit_distributions d1) today pl'"
      by (simp add: frames(3))
  qed
  then have "filter (plan_is_due no_faults (profit_distributions d1) today) (active_plans d1) = []"
    by (simp add: filter_empty_conv)
  then have "distributeInvestmentProfits no_faults now2 d1 = d1"
    unfolding distribute_unfold [of now2] same today_def [symmetric] by simp
  then show ?thesis by (simp add: d1_def)
qed


theorem distribution_idempotent_same_day_witness:
  "utc_date 90000001 = utc_date 90000000 \<and>
   profit_distributions (distributeInvestmentProfits no_faults 90000000 one_plan_db) \<noteq> [] \<and>
   distributeInvestmentProfits no_faults 90000001
       (distributeInvestmentProfits no_faults 90000000 one_plan_db)
     = distributeInvestmentProfits no_faults 90000000 one_plan_db"
proof -
  have same: "utc_date 90000001 = utc_date 90000000"
    by (simp add: utc_date_def MS_PER_DAY_def)
  have paid: "profit_distributions (distributeInvestmentProfits no_faults 90000000 one_plan_db) \<noteq> []"
    by (simp add: distribution_defs one_plan_db_def empty_db_def new_plan_def new_profile_def)
  show ?thesis
    using same paid distribution_idempotent_same_day [OF same, of one_plan_db] by simp
qed

subsection \<open>Referral commissions\<close>






lemma distinct_single_row:
  "distinct (map f xs) \<Longrightarrow> x \<in> set xs \<Longrightarrow> single_row (filter (\<lambda>y. f y = f x) xs) = Some x"
  by (simp add: distinct_filter_member single_row_def)


lemma commission_for_simps [simp]:
  "commission_for x A [] = 0"
  "commission_for x A (pair # pairs) =
     (if p_id (fst (fst pair)) = x then A * usdtRate (snd pair) / 100 else 0)
       + commission_for x A pairs"
  by (simp_all add: commission_for_def)






subsection \<open>Withdrawal requests\<close>

lemma find_wallet_update:
  "map_option main_wallet_balance
     (find (\<lambda>p. p_id p = u)
        (map (\<lambda>p. if p_id p = k then p\<lparr>main_wallet_balance := main_wallet_balance p + v\<rparr> else p) ps)) =
   map_option (\<lambda>b. if u = k then b + v else b)
     (map_option main_wallet_balance (find (\<lambda>p. p_id p = u) ps))"
  by (induction ps) auto

text \<open>
  Claim C5. \<open>approve_withdrawal_request\<close> returns \<open>TRUE\<close> only for a pending request
  whose amount is at most the main wallet balance of the requesting user at that moment,
  and it then deducts the amount; when the balance is smaller it raises an exception;
  whenever it raises, the database is as before the call. \<open>reject_withdrawal_request\<close>
  leaves the \<open>profiles\<close> table, and so every main wallet balance, as it was.
\<close>

theorem withdrawal_approval_requires_balance:
  "(\<forall>d'. approve_withdrawal_request auth_uid p_request_id p_admin_notes d = (Inr True, d') \<longrightarrow>
      (\<exists>w. find (\<lambda>w. wr_id w = p_request_id \<and> wr_status w = req_pending)
              (withdrawal_requests d) = Some w \<and>
           (\<forall>b. main_wallet_of d (wr_user_id w) = Some b \<longrightarrow>
                wr_amount w \<le> b \<and>
                main_wallet_of d' (wr_user_id w) = Some (b - wr_amount w)))) \<and>
   (\<forall>w b. find (\<lambda>w. wr_id w = p_request_id \<and> wr_status w = req_pending)
              (withdrawal_requests d) = Some w \<and>
          main_wallet_of d (wr_user_id w) = Some b \<and> b < wr_amount w \<longrightarrow>
      (\<exists>e. approve_withdrawal_request auth_uid p_request_id p_admin_notes d = (Inl e, d))) \<and>
   (\<forall>e d'. approve_withdrawal_request auth_uid p_request_id p_admin_notes d = (Inl e, d') \<longrightarrow>
      d' = d) \<and>
   profiles (snd (reject_withdrawal_request auth_uid' p_request_id' p_admin_notes' d)) = profiles d"
proof (intro conjI allI impI)
  fix d'
  assume ok: "approve_withdrawal_request auth_uid p_request_id p_admin_notes d = (Inr True, d')"
  then obtain w where w: "find (\<lambda>w. wr_id w = p_request_id \<and> wr_status w = req_pending)
              (withdrawal_requests d) = Some w"
    by (auto simp: approve_withdrawal_request_def split: if_splits option.splits)
  have "\<forall>b. main_wallet_of d (wr_user_id w) = Some b \<longrightarrow>
                wr_amount w \<le> b \<and> main_wallet_of d' (wr_user_id w) = Some (b - wr_amount w)"
  proof (intro allI impI)
    fix b assume b: "main_wallet_of d (wr_user_id w) = Some b"
    from ok w b have le: "wr_amount w \<le> b"
      by (auto simp: approve_withdrawal_request_def main_wallet_of_def Let_def
          split: if_splits)
    from ok w have "profiles d' = map (\<lambda>p. if p_id p = wr_user_id w
                                then p\<lparr>main_wallet_balance :=
                                       main_wallet_balance p + (- wr_amount w)\<rparr>
                                else p) (profiles d)"
      by (auto simp: approve_withdrawal_request_def Let_def split: if_splits)
    then have "main_wallet_of d' (wr_user_id w) = Some (b - wr_amount w)"
      using b unfolding main_wallet_of_def by (simp only: find_wallet_update) simp
    with le show "wr_amount w \<le> b \<and> main_wallet_of d' (wr_user_id w) = Some (b - wr_amount w)"
      by simp
  qed
  with w show "\<exists>w. find (\<lambda>w. wr_id w = p_request_id \<and> wr_status w = req_pending)
              (withdrawal_requests d) = Some w \<and>
           (\<forall>b. main_wallet_of d (wr_user_id w) = Some b \<longrightarrow>
                wr_amount w \<le> b \<and>
                main_wallet_of d' (wr_user_id w) = Some (b - wr_amount w))"
    by blast
next
  fix w b
  assume "find (\<lambda>w. wr_id w = p_request_id \<and> wr_status w = req_pending)
              (withdrawal_requests d) = Some w \<and>
          main_wallet_of d (wr_user_id w) = Some b \<and> b < wr_amount w"
  then show "\<exists>e. approve_withdrawal_request auth_uid p_request_id p_admin_notes d = (Inl e, d)"
    by (auto simp: approve_withdrawal_request_def main_wallet_of_def Let_def)
next
  fix e d'
  assume "approve_withdrawal_request auth_uid p_request_id p_admin_notes d = (Inl e, d')"
  then show "d' = d"
    by (auto simp: approve_withdrawal_request_def Let_def split: if_splits option.splits)
next
  show "profiles (snd (reject_withdrawal_request auth_uid' p_request_id' p_admin_notes' d)) = profiles d"
    by (simp add: reject_withdrawal_request_def)
qed

theorem withdrawal_approval_requires_balance_witness:
  "fst (approve_withdrawal_request (Some 1) 5 None withdrawal_db) = Inr True \<and>
   main_wallet_of withdrawal_db 2 = Some 50 \<and>
   main_wallet_of (snd (approve_withdrawal_request (Some 1) 5 None withdrawal_db)) 2 = Some 20 \<and>
   approve_withdrawal_request (Some 1) 6 None withdrawal_db =
     (Inl User_has_insufficient_balance_for_withdrawal, withdrawal_db) \<and>
   fst (reject_withdrawal_request (Some 1) 6 None withdrawal_db) = Inr True \<and>
   profiles (snd (reject_withdrawal_request (Some 1) 6 None withdrawal_db)) = profiles withdrawal_db"
proof -
  let ?w5 = "\<lparr>wr_id = 5, wr_user_id = 2, wr_amount = 30, wr_status = req_pending,
         wr_admin_notes = None\<rparr>"
  let ?w6 = "\<lparr>wr_id = 6, wr_user_id = 2, wr_amount = 80, wr_status = req_pending,
         wr_admin_notes = None\<rparr>"
  note main = withdrawal_approval_requires_balance
  have wallet: "main_wallet_of withdrawal_db 2 = Some 50"
    by (simp add: main_wallet_of_def withdrawal_db_def empty_db_def new_profile_def)
  have ok: "fst (approve_withdrawal_request (Some 1) 5 None withdrawal_db) = Inr True"
    by (simp add: approve_withdrawal_request_def caller_is_admin_def withdrawal_db_def
        empty_db_def new_profile_def Let_def)
  then obtain d' where d': "approve_withdrawal_request (Some 1) 5 None withdrawal_db = (Inr True, d')"
    by (cases "approve_withdrawal_request (Some 1) 5 None withdrawal_db") simp
  have f5: "find (\<lambda>w. wr_id w = 5 \<and> wr_status w = req_pending) (withdrawal_requests withdrawal_db)
      = Some ?w5"
    by (simp add: withdrawal_db_def empty_db_def)
  have f6: "find (\<lambda>w. wr_id w = 6 \<and> wr_status w = req_pending) (withdrawal_requests withdrawal_db)
      = Some ?w6"
    by (simp add: withdrawal_db_def empty_db_def)
  from main [of "Some 1" 5 None withdrawal_db, THEN conjunct1, rule_format, OF d'] f5 wallet
  have after: "main_wallet_of d' 2 = Some 20" by auto
  from main [of "Some 1" 6 None withdrawal_db, THEN conjunct2, THEN conjunct1, rule_format,
      of ?w6 50] f6 wallet
  obtain e where e: "approve_withdrawal_request (Some 1) 6 None withdrawal_db = (Inl e, withdrawal_db)"
    by auto
  have "fst (approve_withdrawal_request (Some 1) 6 None withdrawal_db)
      = Inl User_has_insufficient_balance_for_withdrawal"
    by (simp add: approve_withdrawal_request_def caller_is_admin_def withdrawal_db_def
        empty_db_def new_profile_def Let_def)
  with e have raised: "approve_withdrawal_request (Some 1) 6 None withdrawal_db =
     (Inl User_has_insufficient_balance_for_withdrawal, withdrawal_db)" by simp
  have rej: "fst (reject_withdrawal_request (Some 1) 6 None withdrawal_db) = Inr True"
    by (simp add: reject_withdrawal_request_def caller_is_admin_def withdrawal_db_def
        empty_db_def new_profile_def)
  from main [of _ _ _ withdrawal_db "Some 1" 6 None]
  have frame: "profiles (snd (reject_withdrawal_request (Some 1) 6 None withdrawal_db))
      = profiles withdrawal_db" by blast
  from ok wallet after d' raised rej frame show ?thesis by simp
qed


subsection \<open>Manual deposit approval\<close>

lemma floor_half_rat: "\<lfloor>1 / 2 :: rat\<rfloor> = 0"
  by (simp add: floor_eq_iff)

lemma floor_numeral_div_rat: "\<lfloor>numeral a / numeral b :: rat\<rfloor> = numeral a div numeral b"
  using floor_divide_of_int_eq [of "numeral a" "numeral b", where ?'a = rat] by simp

lemma floor_of_int_plus_half: "\<lfloor>of_int k + 1 / 2 :: rat\<rfloor> = k"
  by (simp add: floor_eq_iff)

lemma round_2_of_int_div: "round_2 (of_int k / 100) = of_int k / 100"
proof (cases "0 \<le> k")
  case True
  then show ?thesis by (simp add: round_2_def floor_of_int_plus_half)
next
  case False
  have "\<lfloor>- (of_int k / 100) * 100 + 1 / 2 :: rat\<rfloor> = - k"
    using floor_of_int_plus_half [of "- k"] by simp
  with False show ?thesis by (simp add: round_2_def)
qed

text \<open>
  Claim C9, as stated, fails: the fee and the net amount are held in \<open>DECIMAL(15,2)\<close>
  variables. For a pending request of 10.50 the fee is 0.11, not 0.105, and the main
  wallet grows by 10.39, not by 10.395.
\<close>

theorem manual_deposit_fee_is_rounded:
  "fst (process_manual_deposit_approval 8 1 None deposit_request_db) =
     Approval_succeeded 1000 (21 / 2) (11 / 100) (1039 / 100) 2 \<and>
   (11 / 100 :: rat) \<noteq> 1 / 100 * (21 / 2) \<and>
   main_wallet_of deposit_request_db 2 = Some 50 \<and>
   main_wallet_of (snd (process_manual_deposit_approval 8 1 None deposit_request_db)) 2 =
     Some (50 + 1039 / 100) \<and>
   (1039 / 100 :: rat) \<noteq> 99 / 100 * (21 / 2)"
  by (simp add: process_manual_deposit_approval_def deposit_request_db_def empty_db_def
      new_profile_def decimal_15_2_def round_2_def insert_transaction_def main_wallet_of_def
      floor_numeral_div_rat Let_def)

text \<open>
  Claim C9, amended. When \<open>process_manual_deposit_approval\<close> approves a pending request of
  amount \<open>A\<close> and neither rounded value overflows \<open>DECIMAL(15,2)\<close>: the fee is
  \<open>0.01 * A\<close> rounded to two decimal places (ties away from zero) and the net amount is
  \<open>A - fee\<close> rounded likewise; for a whole-number \<open>A\<close> they are exactly \<open>0.01 * A\<close> and
  \<open>0.99 * A\<close>; the transaction row that is created records the net amount in \<open>amount\<close>
  and in \<open>net_amount\<close>; and the user's main wallet grows by exactly the net amount.
\<close>

theorem manual_deposit_credits_net_amount:
  assumes "find (\<lambda>r. dr_id r = p_request_id \<and> dr_status r = req_pending) (deposit_requests d)
             = Some v_request"
    and "decimal_15_2 (dr_amount v_request * (1 / 100)) = Some v_fee_amount"
    and "decimal_15_2 (dr_amount v_request - v_fee_amount) = Some v_net_amount"
  shows "fst (process_manual_deposit_approval p_request_id p_admin_id p_admin_notes d) =
           Approval_succeeded (next_uuid d) (dr_amount v_request) v_fee_amount v_net_amount
             (dr_user_id v_request) \<and>
         v_fee_amount = round_2 (dr_amount v_request * (1 / 100)) \<and>
         v_net_amount = round_2 (dr_amount v_request - v_fee_amount) \<and>
         ((\<exists>k. dr_amount v_request = of_int k) \<longrightarrow>
            v_fee_amount = 1 / 100 * dr_amount v_request \<and>
            v_net_amount = 99 / 100 * dr_amount v_request) \<and>
         transactions (snd (process_manual_deposit_approval p_request_id p_admin_id p_admin_notes d)) =
           transactions d @
             [\<lparr>tx_id = next_uuid d, tx_user_id = dr_user_id v_request,
               tx_transaction_type = ''deposit'', tx_amount = v_net_amount,
               tx_fee = Some v_fee_amount, tx_net_amount = Some v_net_amount,
               tx_status = completed, tx_reference_id = dr_tx_hash v_request,
               tx_plan_id = None\<rparr>] \<and>
         main_wallet_of (snd (process_manual_deposit_approval p_request_id p_admin_id p_admin_notes d))
             (dr_user_id v_request) =
           map_option (\<lambda>balance. balance + v_net_amount) (main_wallet_of d (dr_user_id v_request))"
proof -
  let ?A = "dr_amount v_request"
  have fee: "v_fee_amount = round_2 (?A * (1 / 100))"
    using assms(2) by (simp add: decimal_15_2_def split: if_splits)
  have net: "v_net_amount = round_2 (?A - v_fee_amount)"
    using assms(3) by (simp add: decimal_15_2_def split: if_splits)
  have whole: "(\<exists>k. ?A = of_int k) \<longrightarrow>
      v_fee_amount = 1 / 100 * ?A \<and> v_net_amount = 99 / 100 * ?A"
  proof
    assume "\<exists>k. ?A = of_int k"
    then obtain k :: int where k: "?A = of_int k" ..
    have f: "v_fee_amount = of_int k / 100"
      unfolding fee k using round_2_of_int_div [of k] by simp
    have "of_int k - of_int k / 100 = (of_int (99 * k) / 100 :: rat)" by simp
    then have n: "v_net_amount = of_int (99 * k) / 100"
      unfolding net k f using round_2_of_int_div [of "99 * k"] by simp
    from f n show "v_fee_amount = 1 / 100 * ?A \<and> v_net_amount = 99 / 100 * ?A"
      by (simp add: k)
  qed
  have res: "fst (process_manual_deposit_approval p_request_id p_admin_id p_admin_notes d) =
           Approval_succeeded (next_uuid d) ?A v_fee_amount v_net_amount (dr_user_id v_request)"
    using assms by (simp add: process_manual_deposit_approval_def Let_def)
  have txs: "transactions (snd (process_manual_deposit_approval p_request_id p_admin_id p_admin_notes d)) =
           transactions d @
             [\<lparr>tx_id = next_uuid d, tx_user_id = dr_user_id v_request,
               tx_transaction_type = ''deposit'', tx_amount = v_net_amount,
               tx_fee = Some v_fee_amount, tx_net_amount = Some v_net_amount,
               tx_status = completed, tx_reference_id = dr_tx_hash v_request,
               tx_plan_id = None\<rparr>]"
    using assms by (simp add: process_manual_deposit_approval_def Let_def insert_transaction_def)
  have "profiles (snd (process_manual_deposit_approval p_request_id p_admin_id p_admin_notes d)) =
      map (\<lambda>p. if p_id p = dr_user_id v_request
                then p\<lparr>main_wallet_balance := main_wallet_balance p + v_net_amount\<rparr> else p)
        (profiles d)"
    using assms by (simp add: process_manual_deposit_approval_def Let_def insert_transaction_def)
  then have wallet: "main_wallet_of (snd (process_manual_deposit_approval p_request_id p_admin_id p_admin_notes d))
             (dr_user_id v_request) =
           map_option (\<lambda>balance. balance + v_net_amount) (main_wallet_of d (dr_user_id v_request))"
    unfolding main_wallet_of_def by (simp only: find_wallet_update) simp
  from res fee net whole txs wallet show ?thesis by blast
qed

theorem manual_deposit_credits_net_amount_witness:
  "fst (process_manual_deposit_approval 9 1 None deposit_request_db) =
     Approval_succeeded 1000 200 2 198 2 \<and>
   map (\<lambda>x. (tx_amount x, tx_fee x, tx_net_amount x))
     (transactions (snd (process_manual_deposit_approval 9 1 None deposit_request_db))) =
     [(198, Some 2, Some 198)] \<and>
   main_wallet_of deposit_request_db 2 = Some 50 \<and>
   main_wallet_of (snd (process_manual_deposit_approval 9 1 None deposit_request_db)) 2 = Some 248"
proof -
  let ?r = "\<lparr>dr_id = 9, dr_user_id = 2, dr_amount = 200, dr_tx_hash = Some ''0xdef'',
         dr_status = req_pending, dr_processed_by = None, dr_admin_notes = None\<rparr>"
  have h1: "find (\<lambda>r. dr_id r = 9 \<and> dr_status r = req_pending) (deposit_requests deposit_request_db)
             = Some ?r"
    by (simp add: deposit_request_db_def empty_db_def)
  have h2: "decimal_15_2 (dr_amount ?r * (1 / 100)) = Some 2"
    by (simp add: decimal_15_2_def round_2_def floor_numeral_div_rat)
  have h3: "decimal_15_2 (dr_amount ?r - 2) = Some 198"
    by (simp add: decimal_15_2_def round_2_def floor_numeral_div_rat)
  have whole: "\<exists>k. dr_amount ?r = of_int k"
    by (rule exI [of _ 200]) simp
  have before: "main_wallet_of deposit_request_db 2 = Some 50"
    by (simp add: main_wallet_of_def deposit_request_db_def empty_db_def new_profile_def)
  have next_id: "next_uuid deposit_request_db = 1000" "transactions deposit_request_db = []"
    by (simp_all add: deposit_request_db_def empty_db_def)
  from manual_deposit_credits_net_amount [OF h1 h2 h3, of 1 None] whole before next_id
  show ?thesis by simp
qed


subsection \<open>TON purchase\<close>





subsection \<open>Deposit submission\<close>

lemma no_faults_call: "no_faults c = False"
  by (simp add: no_faults_def)

lemma map_filter_append_one:
  "List.map_filter f (xs @ [x]) =
     List.map_filter f xs @ (case f x of None \<Rightarrow> [] | Some y \<Rightarrow> [y])"
  by (induction xs) (simp_all add: map_filter_simps split: option.splits)

lemma reference_present:
  "h \<in> set (List.map_filter tx_reference_id txs) \<longleftrightarrow>
     filter (\<lambda>x. tx_reference_id x = Some h) txs \<noteq> []"
  by (induction txs) (auto simp: map_filter_simps split: option.splits)

lemma unique_reference_rows:
  "distinct (List.map_filter tx_reference_id txs) \<Longrightarrow>
   filter (\<lambda>x. tx_reference_id x = Some h) txs = [] \<or>
   (\<exists>x. filter (\<lambda>x. tx_reference_id x = Some h) txs = [x])"
proof (induction txs)
  case Nil
  then show ?case by simp
next
  case (Cons t txs)
  show ?case
  proof (cases "tx_reference_id t = Some h")
    case True
    with Cons.prems have "h \<notin> set (List.map_filter tx_reference_id txs)"
      by (simp add: map_filter_simps)
    then have "filter (\<lambda>x. tx_reference_id x = Some h) txs = []"
      by (simp add: reference_present)
    with True show ?thesis by simp
  next
    case False
    moreover from Cons.prems have "distinct (List.map_filter tx_reference_id txs)"
      by (simp add: map_filter_simps split: option.splits)
    ultimately show ?thesis using Cons.IH by simp
  qed
qed

text \<open>
  Claim C7. When no two ledger rows share a reference and the duplicate query succeeds,
  \<open>POST /api/bsc/deposit\<close> leaves a ledger in which no two rows share a reference; and
  a well-formed submission whose \<open>txHash\<close> is the reference of an existing row is
  answered with 400 "Transaction already processed" and changes nothing.
\<close>

theorem deposit_POST_keeps_references_unique:
  assumes "distinct (reference_ids d)" and "\<not> fl (Select Transactions)"
  shows "distinct (reference_ids (snd (deposit_POST fl txHash expectedAmount userId d))) \<and>
         (\<forall>uid hash a profile.
            userId = Some uid \<and> txHash = Some hash \<and> hash \<noteq> [] \<and> expectedAmount = Some a \<and>
            10 \<le> a \<and> a \<le> 50000 \<and> profile_by_id fl d uid = Some profile \<and>
            hash \<in> set (reference_ids d) \<longrightarrow>
            deposit_POST fl txHash expectedAmount userId d =
              ((400, Error_message ''Transaction already processed''), d))"
proof (intro conjI allI impI)
  show "distinct (reference_ids (snd (deposit_POST fl txHash expectedAmount userId d)))"
  proof (cases "\<exists>uid hash a. userId = Some uid \<and> txHash = Some hash \<and> expectedAmount = Some a")
    case False
    then have "snd (deposit_POST fl txHash expectedAmount userId d) = d"
      by (auto simp: deposit_POST_def split: option.splits)
    with assms(1) show ?thesis by simp
  next
    case True
    then obtain uid hash a where in_: "userId = Some uid" "txHash = Some hash" "expectedAmount = Some a"
      by blast
    from unique_reference_rows [OF assms(1) [unfolded reference_ids_def], of hash] show ?thesis
    proof
      assume none: "filter (\<lambda>x. tx_reference_id x = Some hash) (transactions d) = []"
      then have "hash \<notin> set (reference_ids d)" by (simp add: reference_present reference_ids_def)
      with assms(1) have "distinct (reference_ids d @ [hash])" by simp
      with assms(1) show ?thesis
        by (auto simp: deposit_POST_def in_ Let_def reference_ids_def insert_transaction_def
            map_filter_append_one split: option.splits)
    next
      assume "\<exists>x. filter (\<lambda>x. tx_reference_id x = Some hash) (transactions d) = [x]"
      then obtain x where "filter (\<lambda>x. tx_reference_id x = Some hash) (transactions d) = [x]" ..
      with assms show ?thesis
        by (auto simp: deposit_POST_def in_ Let_def single_row_def split: option.splits)
    qed
  qed
next
  fix uid hash a profile
  assume a: "userId = Some uid \<and> txHash = Some hash \<and> hash \<noteq> [] \<and> expectedAmount = Some a \<and>
            10 \<le> a \<and> a \<le> 50000 \<and> profile_by_id fl d uid = Some profile \<and>
            hash \<in> set (reference_ids d)"
  then have "filter (\<lambda>x. tx_reference_id x = Some hash) (transactions d) \<noteq> []"
    by (simp add: reference_present reference_ids_def)
  with unique_reference_rows [OF assms(1) [unfolded reference_ids_def], of hash]
  obtain x where x: "filter (\<lambda>x. tx_reference_id x = Some hash) (transactions d) = [x]" by blast
  show "deposit_POST fl txHash expectedAmount userId d =
              ((400, Error_message ''Transaction already processed''), d)"
    using a x assms(2) by (auto simp: deposit_POST_def Let_def single_row_def)
qed

theorem deposit_POST_keeps_references_unique_witness:
  "distinct (reference_ids pending_deposit_db) \<and>
   \<not> no_faults (Select Transactions) \<and>
   reference_ids pending_deposit_db = [''0xabc''] \<and>
   deposit_POST no_faults (Some ''0xabc'') (Some 100) (Some 2) pending_deposit_db =
     ((400, Error_message ''Transaction already processed''), pending_deposit_db) \<and>
   fst (deposit_POST no_faults (Some ''0xabd'') (Some 100) (Some 2) pending_deposit_db) =
     (200, Deposit_submitted 100 ''0xabd'') \<and>
   reference_ids (snd (deposit_POST no_faults (Some ''0xabd'') (Some 100) (Some 2) pending_deposit_db))
     = [''0xabc'', ''0xabd'']"
proof -
  let ?p = "(new_profile 2 ''U2'' (Some ''U1''))\<lparr>fund_wallet_balance := 30\<rparr>"
  have refs: "reference_ids pending_deposit_db = [''0xabc'']"
    by (simp add: reference_ids_def pending_deposit_db_def empty_db_def map_filter_simps)
  then have h1: "distinct (reference_ids pending_deposit_db)" by simp
  have h2: "\<not> no_faults (Select Transactions)" by (simp add: no_faults_def)
  have prof: "profile_by_id no_faults pending_deposit_db 2 = Some ?p"
    by (simp add: profile_by_id_def no_faults_def single_row_def pending_deposit_db_def
        empty_db_def new_profile_def)
  note main = deposit_POST_keeps_references_unique
    [where d = pending_deposit_db and fl = no_faults, OF h1 h2]
  from main [of "Some ''0xabc''" "Some 100" "Some 2", THEN conjunct2, rule_format,
      of 2 "''0xabc''" 100 ?p] prof refs
  have rejected: "deposit_POST no_faults (Some ''0xabc'') (Some 100) (Some 2) pending_deposit_db =
     ((400, Error_message ''Transaction already processed''), pending_deposit_db)"
    by simp
  have fresh: "filter (\<lambda>x. tx_reference_id x = Some ''0xabd'') (transactions pending_deposit_db) = []"
    by (simp add: pending_deposit_db_def empty_db_def)
  have run: "deposit_POST no_faults (Some ''0xabd'') (Some 100) (Some 2) pending_deposit_db =
      ((200, Deposit_submitted 100 ''0xabd''),
       insert_transaction
         \<lparr>tx_id = 0, tx_user_id = 2, tx_transaction_type = ''deposit'', tx_amount = 100,
          tx_fee = None, tx_net_amount = None, tx_status = pending,
          tx_reference_id = Some ''0xabd'', tx_plan_id = None\<rparr> pending_deposit_db)"
    by (simp add: deposit_POST_def prof fresh Let_def no_faults_call single_row_def)
  have accepted: "fst (deposit_POST no_faults (Some ''0xabd'') (Some 100) (Some 2) pending_deposit_db) =
     (200, Deposit_submitted 100 ''0xabd'')"
    "reference_ids (snd (deposit_POST no_faults (Some ''0xabd'') (Some 100) (Some 2) pending_deposit_db))
     = [''0xabc'', ''0xabd'']"
    unfolding run
    by (simp_all add: reference_ids_def insert_transaction_def pending_deposit_db_def empty_db_def
        map_filter_simps)
  from h1 h2 refs rejected accepted show ?thesis by simp
qed


text \<open>
  The hypothesis on the ledger is needed. The duplicate check reads its row with
  \<open>.single()\<close>: when several rows already carry the reference, the client reports an
  error, \<open>existingTx\<close> is \<open>null\<close> and the handler inserts one more row.
\<close>

lemma deposit_POST_with_repeated_reference:
  "reference_ids repeated_reference_db = [''0xabc'', ''0xabc''] \<and>
   fst (deposit_POST no_faults (Some ''0xabc'') (Some 100) (Some 2) repeated_reference_db) =
     (200, Deposit_submitted 100 ''0xabc'') \<and>
   reference_ids (snd (deposit_POST no_faults (Some ''0xabc'') (Some 100) (Some 2)
                         repeated_reference_db)) = [''0xabc'', ''0xabc'', ''0xabc'']"
proof -
  have prof: "profile_by_id no_faults repeated_reference_db 2 =
      Some ((new_profile 2 ''U2'' (Some ''U1''))\<lparr>fund_wallet_balance := 30\<rparr>)"
    by (simp add: profile_by_id_def no_faults_def single_row_def repeated_reference_db_def
        pending_deposit_db_def empty_db_def new_profile_def)
  have two: "single_row (filter (\<lambda>x. tx_reference_id x = Some ''0xabc'')
      (transactions repeated_reference_db)) = None"
    by (simp add: single_row_def repeated_reference_db_def pending_deposit_db_def empty_db_def)
  have run: "deposit_POST no_faults (Some ''0xabc'') (Some 100) (Some 2) repeated_reference_db =
      ((200, Deposit_submitted 100 ''0xabc''),
       insert_transaction
         \<lparr>tx_id = 0, tx_user_id = 2, tx_transaction_type = ''deposit'', tx_amount = 100,
          tx_fee = None, tx_net_amount = None, tx_status = pending,
          tx_reference_id = Some ''0xabc'', tx_plan_id = None\<rparr> repeated_reference_db)"
    by (simp add: deposit_POST_def prof two Let_def no_faults_call)
  show ?thesis
    unfolding run
    by (simp add: reference_ids_def insert_transaction_def repeated_reference_db_def
        pending_deposit_db_def empty_db_def map_filter_simps)
qed

subsection \<open>Commission failures and the primary transaction\<close>

lemma payCommission_frame:
  "investment_plans (snd (payCommission fl rid u A rates d)) = investment_plans d"
  "\<exists>new. transactions (snd (payCommission fl rid u A rates d)) = transactions d @ new"
  by (auto simp: payCommission_def Let_def createCommissionTransaction_def
      createReferralCommissionRecord_def set_main_wallet_balance_def insert_transaction_def
      split: option.splits)

lemma payCommissions_frame:
  "investment_plans (snd (payCommissions fl t pairs d)) = investment_plans d \<and>
   (\<exists>new. transactions (snd (payCommissions fl t pairs d)) = transactions d @ new)"
proof (induction pairs arbitrary: d)
  case Nil
  then show ?case by simp
next
  case (Cons pair pairs)
  obtain referrer rates where pair: "pair = (referrer, rates)" by (cases pair)
  obtain e d1 where step: "payCommission fl (p_id (fst referrer)) (rt_userId t) (rt_amount t) rates d
      = (e, d1)" by (cases "payCommission fl (p_id (fst referrer)) (rt_userId t) (rt_amount t) rates d")
  from payCommission_frame [of fl "p_id (fst referrer)" "rt_userId t" "rt_amount t" rates d]
  obtain new1 where d1: "investment_plans d1 = investment_plans d"
    "transactions d1 = transactions d @ new1"
    by (auto simp: step)
  show ?case
  proof (cases e)
    case None
    from Cons.IH [of d1] obtain new2 where
      "investment_plans (snd (payCommissions fl t pairs d1)) = investment_plans d1"
      "transactions (snd (payCommissions fl t pairs d1)) = transactions d1 @ new2"
      by blast
    with None d1 show ?thesis by (simp add: pair step)
  next
    case (Some err)
    with d1 show ?thesis by (simp add: pair step)
  qed
qed

lemma processReferralCommissions_frame:
  "investment_plans (snd (processReferralCommissions fl t d)) = investment_plans d"
  "\<exists>new. transactions (snd (processReferralCommissions fl t d)) = transactions d @ new"
  using payCommissions_frame [of fl t "zip (getReferralChain fl d (rt_userId t)) commissionRates" d]
  by (auto simp: processReferralCommissions_def Let_def)

lemma deposit_PUT_approve:
  assumes "single_row (filter (\<lambda>x. tx_id x = tid \<and> tx_transaction_type x = ''deposit''
                                   \<and> tx_status x = pending) (transactions d)) = Some tx"
    and "\<not> fl (Select Transactions)" and "\<not> fl (Rpc ''process_bsc_deposit'')"
    and "\<not> fl (Update Transactions)"
    and "d1 = process_bsc_deposit (tx_user_id tx) (tx_amount tx) (tx_amount tx * (1 / 100))
                  (tx_amount tx - tx_amount tx * (1 / 100)) (tx_reference_id tx) d"
    and "d2 = snd (processReferralCommissions fl
                     \<lparr>rt_userId = tx_user_id tx, rt_amount = tx_amount tx,
                      rt_transactionType = ''deposit'', rt_planType = Some ''deposit''\<rparr> d1)"
  shows "deposit_PUT fl process_bsc_deposit (Some tid) (Some True) d =
      ((200, Success_message ''Deposit approved and processed successfully''),
       d2\<lparr>transactions := map (\<lambda>x. if tx_id x = tid then x\<lparr>tx_status := completed\<rparr> else x)
                              (transactions d2)\<rparr>)"
  using assms(1-4) unfolding assms(5,6) by (simp add: deposit_PUT_def Let_def)

lemma mark_completed_ids:
  "map tx_id (map (\<lambda>x. if tx_id x = tid then x\<lparr>tx_status := completed\<rparr> else x) txs)
     = map tx_id txs"
  by (induction txs) simp_all

lemma mark_one:
  "tx_id (if tx_id x = tid then x\<lparr>tx_status := completed\<rparr> else x) = tid \<Longrightarrow>
   tx_status (if tx_id x = tid then x\<lparr>tx_status := completed\<rparr> else x) = completed"
  by (cases "tx_id x = tid") simp_all

lemma mark_completed_status:
  "\<forall>y \<in> set (map (\<lambda>x. if tx_id x = tid then x\<lparr>tx_status := completed\<rparr> else x) txs).
     tx_id y = tid \<longrightarrow> tx_status y = completed"
proof (intro ballI impI)
  fix y
  assume mem: "y \<in> set (map (\<lambda>x. if tx_id x = tid then x\<lparr>tx_status := completed\<rparr> else x) txs)"
    and tid: "tx_id y = tid"
  from mem [unfolded set_map]
  have "\<exists>x. y = (if tx_id x = tid then x\<lparr>tx_status := completed\<rparr> else x)"
    by (rule imageE) (erule exI)
  then obtain x where y: "y = (if tx_id x = tid then x\<lparr>tx_status := completed\<rparr> else x)" ..
  from tid show "tx_status y = completed"
    unfolding y by (rule mark_one)
qed

lemma handleInvest_success:
  assumes "10 \<le> a" and "a \<le> 50000" and "a \<le> cached"
    and "\<not> fl' (Insert Investment_plans)" and "\<not> fl' (Update Profiles)"
    and "\<not> fl' (Insert Transactions)"
  shows "fst (handleInvest fl' now user (Some cached) True (Some a) d') = Success_shown"
    and "investment_plans (snd (handleInvest fl' now user (Some cached) True (Some a) d')) =
           investment_plans d' @
             [\<lparr>ip_id = next_uuid d', ip_user_id = user, ip_plan_type = ''A'',
               ip_investment_amount = a, ip_daily_percentage = 3, ip_total_profit_earned = 0,
               ip_is_active = True, ip_created_at = now\<rparr>]"
  using assms
  by (simp_all add: handleInvest_def Let_def processReferralCommissions_frame(1)
      insert_transaction_def)

text \<open>The definitions a commission run on a concrete database unfolds.\<close>

lemmas commission_defs =
  processReferralCommissions_def getReferralChain_def getReferralChain_from.simps
  payCommission_def createCommissionTransaction_def createReferralCommissionRecord_def
  commissionRates_def profile_by_id_def single_row_def truthy_def set_main_wallet_balance_def
  insert_transaction_def Let_def

text \<open>
  Claim C6. Whatever \<open>processReferralCommissions\<close> does, also when it throws after part
  of its writes, the primary transaction completes. Approving a pending deposit (the
  lookup, the stored procedure and the final update succeeding) answers 200, keeps every
  ledger row the stored procedure left and marks the deposit \<open>completed\<close>. An investment
  that passes the form's checks (its three writes succeeding) shows the success message
  and the new plan is in \<open>investment_plans\<close>. No hypothesis is made on the calls of the
  commission processing: in the example that follows the insert of the commission record
  fails and \<open>processReferralCommissions\<close> throws.
\<close>

theorem commission_failure_does_not_block:
  assumes "single_row (filter (\<lambda>x. tx_id x = tid \<and> tx_transaction_type x = ''deposit''
                                   \<and> tx_status x = pending) (transactions d)) = Some tx"
    and "\<not> fl (Select Transactions)" and "\<not> fl (Rpc ''process_bsc_deposit'')"
    and "\<not> fl (Update Transactions)"
    and "10 \<le> a" and "a \<le> 50000" and "a \<le> cached"
    and "\<not> fl' (Insert Investment_plans)" and "\<not> fl' (Update Profiles)"
    and "\<not> fl' (Insert Transactions)"
  shows "fst (deposit_PUT fl process_bsc_deposit (Some tid) (Some True) d) =
           (200, Success_message ''Deposit approved and processed successfully'') \<and>
         (\<forall>x \<in> set (transactions (snd (deposit_PUT fl process_bsc_deposit (Some tid) (Some True) d))).
            tx_id x = tid \<longrightarrow> tx_status x = completed) \<and>
         set (map tx_id (transactions
               (process_bsc_deposit (tx_user_id tx) (tx_amount tx) (tx_amount tx * (1 / 100))
                  (tx_amount tx - tx_amount tx * (1 / 100)) (tx_reference_id tx) d)))
           \<subseteq> set (map tx_id (transactions
                 (snd (deposit_PUT fl process_bsc_deposit (Some tid) (Some True) d)))) \<and>
         fst (handleInvest fl' now user (Some cached) True (Some a) d') = Success_shown \<and>
         \<lparr>ip_id = next_uuid d', ip_user_id = user, ip_plan_type = ''A'',
          ip_investment_amount = a, ip_daily_percentage = 3, ip_total_profit_earned = 0,
          ip_is_active = True, ip_created_at = now\<rparr>
           \<in> set (investment_plans (snd (handleInvest fl' now user (Some cached) True (Some a) d')))"
proof -
  define d1 where "d1 = process_bsc_deposit (tx_user_id tx) (tx_amount tx) (tx_amount tx * (1 / 100))
                  (tx_amount tx - tx_amount tx * (1 / 100)) (tx_reference_id tx) d"
  define d2 where "d2 = snd (processReferralCommissions fl
                                      \<lparr>rt_userId = tx_user_id tx, rt_amount = tx_amount tx,
                                       rt_transactionType = ''deposit'',
                                       rt_planType = Some ''deposit''\<rparr> d1)"
  define final where "final = snd (deposit_PUT fl process_bsc_deposit (Some tid) (Some True) d)"
  have put: "deposit_PUT fl process_bsc_deposit (Some tid) (Some True) d =
      ((200, Success_message ''Deposit approved and processed successfully''),
       d2\<lparr>transactions := map (\<lambda>x. if tx_id x = tid then x\<lparr>tx_status := completed\<rparr> else x)
                              (transactions d2)\<rparr>)"
    by (rule deposit_PUT_approve [where fl = fl and process_bsc_deposit = process_bsc_deposit,
          OF assms(1-4) d1_def d2_def])
  then have txs: "transactions final =
      map (\<lambda>x. if tx_id x = tid then x\<lparr>tx_status := completed\<rparr> else x) (transactions d2)"
    by (simp add: final_def)
  from processReferralCommissions_frame(2) obtain new where
    "transactions d2 = transactions d1 @ new" unfolding d2_def by blast
  then have ids: "set (map tx_id (transactions d1)) \<subseteq> set (map tx_id (transactions final))"
    unfolding txs mark_completed_ids by simp
  have marked: "\<forall>x \<in> set (transactions final). tx_id x = tid \<longrightarrow> tx_status x = completed"
    unfolding txs by (rule mark_completed_status)
  have answer: "fst (deposit_PUT fl process_bsc_deposit (Some tid) (Some True) d) =
           (200, Success_message ''Deposit approved and processed successfully'')"
    by (simp add: put)
  note invest = handleInvest_success [where fl' = fl' and now = now and user = user and d' = d',
      OF assms(5-10)]
  from invest(2) have plan: "\<lparr>ip_id = next_uuid d', ip_user_id = user, ip_plan_type = ''A'',
          ip_investment_amount = a, ip_daily_percentage = 3, ip_total_profit_earned = 0,
          ip_is_active = True, ip_created_at = now\<rparr>
           \<in> set (investment_plans (snd (handleInvest fl' now user (Some cached) True (Some a) d')))"
    by simp
  from answer marked ids invest(1) plan show ?thesis
    unfolding final_def d1_def by (intro conjI) assumption+
qed


theorem commission_failure_does_not_block_witness:
  "fst (processReferralCommissions commission_record_insert_fails
          \<lparr>rt_userId = 2, rt_amount = 100, rt_transactionType = ''deposit'',
           rt_planType = Some ''deposit''\<rparr>
          (example_process_bsc_deposit 2 100 1 99 (Some ''0xabc'') pending_deposit_db)) =
     Some Failed_to_create_referral_commission_record \<and>
   fst (deposit_PUT commission_record_insert_fails example_process_bsc_deposit (Some 50) (Some True)
          pending_deposit_db) =
     (200, Success_message ''Deposit approved and processed successfully'') \<and>
   map (\<lambda>x. (tx_id x, tx_transaction_type x, tx_status x))
     (transactions (snd (deposit_PUT commission_record_insert_fails example_process_bsc_deposit
                           (Some 50) (Some True) pending_deposit_db))) =
     [(50, ''deposit'', completed), (1000, ''referral_bonus'', completed)] \<and>
   fst (processReferralCommissions commission_record_insert_fails
          \<lparr>rt_userId = 2, rt_amount = 20, rt_transactionType = ''investment'',
           rt_planType = Some ''USDT Staking''\<rparr> pending_deposit_db) =
     Some Failed_to_create_referral_commission_record \<and>
   fst (handleInvest commission_record_insert_fails 1234 2 (Some 30) True (Some 20)
          pending_deposit_db) = Success_shown \<and>
   map (\<lambda>pl. (ip_id pl, ip_user_id pl, ip_investment_amount pl))
     (investment_plans (snd (handleInvest commission_record_insert_fails 1234 2 (Some 30) True
                               (Some 20) pending_deposit_db))) = [(1000, 2, 20)]"
proof -
  let ?fl = commission_record_insert_fails
  let ?tx = "\<lparr>tx_id = 50, tx_user_id = 2, tx_transaction_type = ''deposit'', tx_amount = 100,
         tx_fee = None, tx_net_amount = None, tx_status = pending,
         tx_reference_id = Some ''0xabc'', tx_plan_id = None\<rparr>"
  let ?d1 = "example_process_bsc_deposit 2 100 1 99 (Some ''0xabc'') pending_deposit_db"
  let ?t = "\<lparr>rt_userId = 2, rt_amount = 100, rt_transactionType = ''deposit'',
           rt_planType = Some ''deposit''\<rparr>"
  have fl: "\<not> ?fl (Select Transactions)" "\<not> ?fl (Rpc ''process_bsc_deposit'')"
    "\<not> ?fl (Update Transactions)" "\<not> ?fl (Insert Investment_plans)"
    "\<not> ?fl (Update Profiles)" "\<not> ?fl (Insert Transactions)"
    by (simp_all add: commission_record_insert_fails_def)
  have h1: "single_row (filter (\<lambda>x. tx_id x = 50 \<and> tx_transaction_type x = ''deposit''
                                   \<and> tx_status x = pending) (transactions pending_deposit_db))
      = Some ?tx"
    by (simp add: single_row_def pending_deposit_db_def empty_db_def)
  have amounts: "(10::rat) \<le> 20" "(20::rat) \<le> 50000" "(20::rat) \<le> 30" by simp_all
  note main = commission_failure_does_not_block
    [where fl = ?fl and fl' = ?fl and process_bsc_deposit = example_process_bsc_deposit
       and d = pending_deposit_db and d' = pending_deposit_db and tid = 50 and tx = ?tx
       and a = 20 and cached = 30 and now = 1234 and user = 2,
     OF h1 fl(1-3) amounts fl(4-6)]
  have failed: "fst (processReferralCommissions ?fl ?t ?d1) =
      Some Failed_to_create_referral_commission_record"
    and txs: "transactions (snd (processReferralCommissions ?fl ?t ?d1)) =
      [?tx, \<lparr>tx_id = 1000, tx_user_id = 1, tx_transaction_type = ''referral_bonus'',
             tx_amount = 10, tx_fee = None, tx_net_amount = Some 10, tx_status = completed,
             tx_reference_id = None, tx_plan_id = None\<rparr>]"
    by (simp_all add: commission_defs commission_record_insert_fails_def
        example_process_bsc_deposit_def pending_deposit_db_def empty_db_def new_profile_def)
  have put: "snd (deposit_PUT ?fl example_process_bsc_deposit (Some 50) (Some True) pending_deposit_db)
      = (snd (processReferralCommissions ?fl ?t ?d1))\<lparr>transactions :=
           map (\<lambda>x. if tx_id x = 50 then x\<lparr>tx_status := completed\<rparr> else x)
             (transactions (snd (processReferralCommissions ?fl ?t ?d1)))\<rparr>"
    using deposit_PUT_approve [where fl = ?fl and process_bsc_deposit = example_process_bsc_deposit,
        OF h1 fl(1-3) refl refl]
    by simp
  have ledger: "map (\<lambda>x. (tx_id x, tx_transaction_type x, tx_status x))
     (transactions (snd (deposit_PUT ?fl example_process_bsc_deposit (Some 50) (Some True)
        pending_deposit_db))) =
     [(50, ''deposit'', completed), (1000, ''referral_bonus'', completed)]"
    unfolding put by (simp add: txs)
  have failed2: "fst (processReferralCommissions ?fl
          \<lparr>rt_userId = 2, rt_amount = 20, rt_transactionType = ''investment'',
           rt_planType = Some ''USDT Staking''\<rparr> pending_deposit_db) =
     Some Failed_to_create_referral_commission_record"
    by (simp add: commission_defs commission_record_insert_fails_def
        pending_deposit_db_def empty_db_def new_profile_def)
  have plans: "map (\<lambda>pl. (ip_id pl, ip_user_id pl, ip_investment_amount pl))
     (investment_plans (snd (handleInvest ?fl 1234 2 (Some 30) True (Some 20) pending_deposit_db)))
       = [(1000, 2, 20)]"
    using handleInvest_success(2) [where fl' = ?fl and now = 1234 and user = 2
        and d' = pending_deposit_db, OF amounts fl(4-6)]
    by (simp add: pending_deposit_db_def empty_db_def)
  from main failed ledger failed2 plans show ?thesis by simp
qed


subsection \<open>Referral counting\<close>

text \<open>
  Claim C8. The three computations of "total referrals" are not extensionally equal:
  there is a database state and a user for which the recursive descendant count
  (\<open>countAllReferralsRecursive\<close> under the user's referral code, also as
  \<open>OptimizedReferralService.getReferralStats\<close> reports it), the number of distinct
  \<open>referred_id\<close>s in the user's commission records (\<open>ReferralService.getReferralStats\<close>)
  and the direct sponsor count (\<open>getDirectReferralsCount\<close>) are three different numbers.
  In \<open>referral_tree_db\<close> user 1 has 2 descendants, 0 commission-bearing referrals and
  1 direct referral.
\<close>

theorem total_referrals_disagree:
  "\<exists>d userId code a b c.
     map referral_code (filter (\<lambda>p. p_id p = userId) (profiles d)) = [Some code] \<and>
     countAllReferralsRecursive no_faults d code 0 6 = a \<and>
     getReferralStats_optimized_totalReferrals no_faults d userId = Inr a \<and>
     getReferralStats_totalReferrals no_faults d userId = Inr b \<and>
     getDirectReferralsCount no_faults d userId = c \<and>
     a \<noteq> b \<and> b \<noteq> c \<and> a \<noteq> c"
proof -
  have code: "map referral_code (filter (\<lambda>p. p_id p = 1) (profiles referral_tree_db)) = [Some ''U1'']"
    by (simp add: referral_tree_db_def empty_db_def new_profile_def)
  have a: "countAllReferralsRecursive no_faults referral_tree_db ''U1'' 0 6 = 2"
    by (simp add: countAllReferralsRecursive.simps referral_tree_db_def empty_db_def
        new_profile_def no_faults_def)
  have a': "getReferralStats_optimized_totalReferrals no_faults referral_tree_db 1 = Inr 2"
    unfolding getReferralStats_optimized_totalReferrals_def a [symmetric]
    by (simp add: referral_tree_db_def empty_db_def new_profile_def no_faults_def
        profile_by_id_def single_row_def)
  have b: "getReferralStats_totalReferrals no_faults referral_tree_db 1 = Inr 0"
    by (simp add: getReferralStats_totalReferrals_def referral_tree_db_def empty_db_def
        no_faults_def)
  have c: "getDirectReferralsCount no_faults referral_tree_db 1 = 1"
    by (simp add: getDirectReferralsCount_def referral_tree_db_def empty_db_def
        new_profile_def no_faults_def profile_by_id_def single_row_def truthy_def)
  show ?thesis
    apply (rule exI [of _ referral_tree_db], rule exI [of _ 1], rule exI [of _ "''U1''"])
    apply (rule exI [of _ 2], rule exI [of _ 0], rule exI [of _ 1])
    using code a a' b c by simp
qed

end
